theory Spec2Isabelle
  imports Complex_Main "HOL-Library.Sublist"
begin

section \<open>The issue-to-pull-request agent of scripts/experimental/claude-agent.py\<close>

text \<open>
  The script drives three external collaborators (a shell, a conversational API and the
  file system) through one sequential workflow. The embedding keeps the functions of the
  class \<^verbatim>\<open>ContainerizedClaude\<close> and of \<^verbatim>\<open>main\<close> under their own names. The
  collaborators are a record of functions (\<open>world\<close>), each indexed by the number of calls
  made to it before, so that every run of the program is the run of the model in some world.
  Exceptions are values of the type \<open>exn\<close>; a function that can raise returns \<open>exn + 'a\<close>
  together with the state it leaves behind.
\<close>

subsection \<open>Python strings\<close>

text \<open>
  A Python \<^verbatim>\<open>str\<close> is modelled as a \<open>string\<close>, one \<open>char\<close> per character. The
  operations below are those of Python on ASCII text; a character outside ASCII is neither
  a space nor a letter here. The three non-ASCII marks of the source's templates are given
  by the bytes the source file holds for them.
\<close>

definition newline :: string where
  "newline = [CHR 0x0A]"

text \<open>The source writes \<^verbatim>\<open>'\\n'\<close>: the two characters backslash and n, not a line feed.\<close>

definition backslash_n :: string where
  "backslash_n = [CHR 0x5C, CHR ''n'']"

definition dquote :: string where
  "dquote = [CHR 0x22]"

definition squote :: string where
  "squote = [CHR 0x27]"

definition check_mark :: string where
  "check_mark = [CHR 0xC3, CHR 0xA2, CHR 0xC5, CHR 0x93, CHR 0xE2, CHR 0x80, CHR 0x9C]"

definition cross_mark :: string where
  "cross_mark = [CHR 0xC3, CHR 0xA2, CHR 0xC5, CHR 0x93, CHR 0xE2, CHR 0x80, CHR 0x94]"

definition robot_mark :: string where
  "robot_mark = [CHR 0xC3, CHR 0xB0, CHR 0xC5, CHR 0xB8, CHR 0xC2, CHR 0xA4, CHR 0xE2, CHR 0x80, CHR 0x93]"

text \<open>\<^verbatim>\<open>str.isspace\<close> on one ASCII character.\<close>

definition is_space :: "char \<Rightarrow> bool" where
  "is_space c = (c \<in> set [CHR 0x09, CHR 0x0A, CHR 0x0B, CHR 0x0C, CHR 0x0D,
                            CHR 0x1C, CHR 0x1D, CHR 0x1E, CHR 0x1F, CHR 0x20])"

text \<open>\<^verbatim>\<open>s.strip()\<close>: drop the white space at both ends.\<close>

definition strip :: "string \<Rightarrow> string" where
  "strip s = rev (dropWhile is_space (rev (dropWhile is_space s)))"

definition upper_char :: "char \<Rightarrow> char" where
  "upper_char c =
     (case map_of (zip ''abcdefghijklmnopqrstuvwxyz'' ''ABCDEFGHIJKLMNOPQRSTUVWXYZ'') c of
        Some u \<Rightarrow> u
      | None \<Rightarrow> c)"

definition lower_char :: "char \<Rightarrow> char" where
  "lower_char c =
     (case map_of (zip ''ABCDEFGHIJKLMNOPQRSTUVWXYZ'' ''abcdefghijklmnopqrstuvwxyz'') c of
        Some l \<Rightarrow> l
      | None \<Rightarrow> c)"

definition upper :: "string \<Rightarrow> string" where
  "upper s = map upper_char s"

definition lower :: "string \<Rightarrow> string" where
  "lower s = map lower_char s"

text \<open>\<^verbatim>\<open>needle in hay\<close> on strings: \<open>needle\<close> occurs as a contiguous piece of \<open>hay\<close>.\<close>

fun contains :: "string \<Rightarrow> string \<Rightarrow> bool" where
  "contains needle [] = (needle = [])"
| "contains needle (c # cs) = (prefix needle (c # cs) \<or> contains needle cs)"

text \<open>\<^verbatim>\<open>sep.join(xs)\<close>.\<close>

fun join :: "string \<Rightarrow> string list \<Rightarrow> string" where
  "join sep [] = []"
| "join sep [x] = x"
| "join sep (x # y # ys) = x @ sep @ join sep (y # ys)"

text \<open>
  \<^verbatim>\<open>s.split(sep)\<close> for a separator \<open>c # sep\<close> (Python raises on the empty separator,
  and the source never passes one): the pieces between the occurrences of the separator,
  found from left to right without overlap. \<open>acc\<close> is the piece being read, reversed.
\<close>

function split_from :: "char \<Rightarrow> string \<Rightarrow> string \<Rightarrow> string \<Rightarrow> string list" where
  "split_from c sep acc [] = [rev acc]"
| "split_from c sep acc (x # xs) =
     (if x = c \<and> prefix sep xs
      then rev acc # split_from c sep [] (drop (length sep) xs)
      else split_from c sep (x # acc) xs)"
  by pat_completeness auto
termination
  by (relation "measure (\<lambda>(c, sep, acc, s). length s)") auto

definition split :: "string \<Rightarrow> string \<Rightarrow> string list" where
  "split s sep = (case sep of c # rest \<Rightarrow> split_from c rest [] s | [] \<Rightarrow> [s])"

text \<open>\<^verbatim>\<open>str(n)\<close> for an integer.\<close>

function str_nat :: "nat \<Rightarrow> string" where
  "str_nat n = (if n < 10 then [''0123456789'' ! n] else str_nat (n div 10) @ [''0123456789'' ! (n mod 10)])"
  by pat_completeness auto
termination
  by (relation "measure id") auto

declare str_nat.simps [simp del]

definition str_int :: "int \<Rightarrow> string" where
  "str_int i = (if i < 0 then ''-'' @ str_nat (nat (- i)) else str_nat (nat i))"

subsection \<open>Exceptions\<close>

text \<open>
  The subclasses of \<^verbatim>\<open>Exception\<close> the program meets. \<open>CalledProcessError\<close> carries the
  return code, the command, and the captured standard output and standard error.
  \<open>ExternalError\<close> is any other exception raised by a collaborator (the subprocess
  machinery, the API client, the file system), with its message.
\<close>

datatype exn =
    CalledProcessError int string string string
  | ValueError string
  | IndexError string
  | PyException string
  | ExternalError string

text \<open>
  \<^verbatim>\<open>str(e)\<close>. For \<open>CalledProcessError\<close> this is the text Python's subprocess module
  builds; the name of a signal is platform data and comes from the table \<open>sigs\<close>.
\<close>

fun str_exn :: "(int \<Rightarrow> string option) \<Rightarrow> exn \<Rightarrow> string" where
  "str_exn sigs (CalledProcessError rc cmd out err) =
     (if rc < 0 then
        (case sigs (- rc) of
           Some name \<Rightarrow> ''Command '' @ squote @ cmd @ squote @ '' died with <Signals.'' @ name @ '': ''
                         @ str_int (- rc) @ ''>.''
         | None \<Rightarrow> ''Command '' @ squote @ cmd @ squote @ '' died with unknown signal ''
                   @ str_int (- rc) @ ''.'')
      else ''Command '' @ squote @ cmd @ squote @ '' returned non-zero exit status '' @ str_int rc @ ''.'')"
| "str_exn sigs (ValueError msg) = msg"
| "str_exn sigs (IndexError msg) = msg"
| "str_exn sigs (PyException msg) = msg"
| "str_exn sigs (ExternalError msg) = msg"

subsection \<open>The inputs, the agent and the world\<close>

text \<open>
  The issue file and the analysis file, after \<^verbatim>\<open>json.load\<close>: the keys the program
  reads, \<open>None\<close> for a key that is absent.
\<close>

record issue_data =
  d_issue_number :: "int option"
  d_branch_name :: "string option"
  d_owner :: "string option"
  d_repo :: "string option"
  d_title :: "string option"
  d_body :: "string option"
  d_pr_title :: "string option"

record analysis_data =
  complexity_level :: "string option"
  overall_risk :: "string option"
  total_estimated_time_minutes :: "int option"
  affected_modules :: "string list option"

text \<open>The fields \<^verbatim>\<open>__init__\<close> sets on \<^verbatim>\<open>self\<close> and never changes afterwards.\<close>

record agent =
  issue :: issue_data
  analysis :: analysis_data
  workspace :: string
  issue_number :: "int option"
  branch_name :: "string option"
  repo_owner :: "string option"
  repo_name :: "string option"

definition ContainerizedClaude :: "issue_data \<Rightarrow> analysis_data \<Rightarrow> string \<Rightarrow> agent" where
  "ContainerizedClaude idata adata ws =
     \<lparr> issue = idata, analysis = adata, workspace = ws,
       issue_number = d_issue_number idata,
       branch_name = d_branch_name idata,
       repo_owner = d_owner idata,
       repo_name = d_repo idata \<rparr>"

type_synonym completed = "int \<times> string \<times> string"

type_synonym message = "string \<times> string"

text \<open>
  The collaborators. \<open>subprocess_run n cmd cwd\<close> is the outcome of the \<open>n\<close>-th command
  the program runs: the process's return code, standard output and standard error, or
  the exception \<^verbatim>\<open>subprocess.run\<close> raises. \<open>messages_create n system messages\<close> is the
  outcome of the \<open>n\<close>-th request to the API: the texts of the content blocks of the
  response, or the exception the client raises. \<open>time_time n\<close> is the \<open>n\<close>-th reading of
  the clock (a real number stands for Python's float). \<open>open_write path\<close> and
  \<open>chmod path mode\<close> give the exception the call raises, if it raises. \<open>load_issue\<close>
  and \<open>load_analysis\<close> are \<^verbatim>\<open>open\<close> followed by \<^verbatim>\<open>json.load\<close> on an input file, and
  \<open>format_2f\<close> is Python's \<^verbatim>\<open>:.2f\<close> format of a float.
\<close>

record world =
  subprocess_run :: "nat \<Rightarrow> string \<Rightarrow> string \<Rightarrow> exn + completed"
  messages_create :: "nat \<Rightarrow> string \<Rightarrow> message list \<Rightarrow> exn + string list"
  getenv :: "string \<Rightarrow> string option"
  path_exists :: "string \<Rightarrow> bool"
  load_issue :: "string \<Rightarrow> exn + issue_data"
  load_analysis :: "string \<Rightarrow> exn + analysis_data"
  open_write :: "string \<Rightarrow> exn option"
  chmod :: "string \<Rightarrow> nat \<Rightarrow> exn option"
  time_time :: "nat \<Rightarrow> real"
  format_2f :: "real \<Rightarrow> string"
  signals :: "int \<Rightarrow> string option"

text \<open>
  The report dictionary. The keys \<^verbatim>\<open>end_time\<close> and \<^verbatim>\<open>duration_seconds\<close> are absent
  until the \<^verbatim>\<open>finally\<close> block sets them: \<open>None\<close> is the absent key. For \<^verbatim>\<open>error\<close> and
  \<^verbatim>\<open>pr_url\<close>, \<open>None\<close> is Python's \<^verbatim>\<open>None\<close>.
\<close>

record execution_report =
  report_issue_number :: "int option"
  report_branch_name :: "string option"
  start_time :: real
  steps :: "string list"
  success :: bool
  error :: "string option"
  pr_url :: "string option"
  end_time :: "real option"
  duration_seconds :: "real option"

text \<open>What the program writes into a file: a text, or a report through \<^verbatim>\<open>json.dump\<close>.\<close>

datatype content = Text string | Report execution_report

text \<open>
  What changes during a run: the conversation history of \<^verbatim>\<open>self\<close>, and the record of
  what the program did to the world: the lines it logged (level and message, without the
  time stamp), the commands it ran with their must-succeed flag and outcome, the requests
  it sent to the API, and the files it wrote.
\<close>

record invocation =
  command :: string
  check :: bool
  outcome :: "exn + completed"

record state =
  conversation_history :: "message list"
  log_lines :: "(string \<times> string) list"
  calls :: "invocation list"
  requests :: "(string \<times> message list) list"
  files :: "(string \<times> content) list"

definition initial_state :: state where
  "initial_state = \<lparr> conversation_history = [], log_lines = [], calls = [], requests = [], files = [] \<rparr>"

subsection \<open>log, run\_command, send\_message\<close>

definition log :: "string \<Rightarrow> string \<Rightarrow> state \<Rightarrow> state" where
  "log msg level s = s\<lparr> log_lines := log_lines s @ [(level, msg)] \<rparr>"

text \<open>
  \<^verbatim>\<open>run_command\<close>: the \<^verbatim>\<open>raise\<close> of the \<open>CalledProcessError\<close> is inside the
  \<^verbatim>\<open>try\<close>, so the handler logs it a second time and raises it again.
\<close>

definition run_command :: "world \<Rightarrow> agent \<Rightarrow> string \<Rightarrow> bool \<Rightarrow> state \<Rightarrow> (exn + completed) \<times> state" where
  "run_command w a cmd chk s =
     (let s1 = log (''Executing: '' @ cmd) ''INFO'' s;
          res = subprocess_run w (length (calls s1)) cmd (workspace a);
          s2 = s1\<lparr> calls := calls s1 @ [\<lparr> command = cmd, check = chk, outcome = res \<rparr>] \<rparr>
      in case res of
           Inl e \<Rightarrow>
             (Inl e, log (''Command execution failed: '' @ str_exn (signals w) e) ''ERROR'' s2)
         | Inr (returncode, out, err) \<Rightarrow>
             if chk \<and> returncode \<noteq> 0 then
               (let s3 = log (''Command failed with code '' @ str_int returncode @ '': '' @ err) ''ERROR'' s2;
                    e = CalledProcessError returncode cmd out err
                in (Inl e, log (''Command execution failed: '' @ str_exn (signals w) e) ''ERROR'' s3))
             else (Inr (returncode, out, err), s2))"

subsection \<open>Formatting and the prompt\<close>

text \<open>\<^verbatim>\<open>d.get(key, default)\<close> on a key that may be absent.\<close>

definition get_default :: "'a \<Rightarrow> 'a option \<Rightarrow> 'a" where
  "get_default d x = (case x of None \<Rightarrow> d | Some v \<Rightarrow> v)"

text \<open>An f-string field holding a value that may be \<^verbatim>\<open>None\<close>.\<close>

definition fmt_str :: "string option \<Rightarrow> string" where
  "fmt_str x = (case x of None \<Rightarrow> ''None'' | Some v \<Rightarrow> v)"

definition fmt_int :: "int option \<Rightarrow> string" where
  "fmt_int x = (case x of None \<Rightarrow> ''None'' | Some v \<Rightarrow> str_int v)"

definition get_system_prompt :: "agent \<Rightarrow> string" where
  "get_system_prompt a = join newline
     [''You are a Swift development assistant working on the FeLangKit project. You are running inside a Docker container with complete isolation from the host system.'',
      '''',
      ''## Project Context'',
      ''- Repository: '' @ fmt_str (repo_owner a) @ ''/'' @ fmt_str (repo_name a),
      ''- Issue #'' @ fmt_int (issue_number a) @ '': '' @ get_default ''Unknown'' (d_title (issue a)),
      ''- Working Branch: '' @ fmt_str (branch_name a),
      ''- Workspace: /workspace (container-isolated)'',
      '''',
      ''## Your Capabilities'',
      ''You can execute commands in the container using shell commands. Available tools:'',
      ''- Swift build system (swift build, swift test)'',
      ''- SwiftLint for code quality'',
      ''- Git for version control (configured with token auth)'',
      ''- GitHub CLI for API operations'',
      ''- File system access within /workspace'',
      '''',
      ''## Development Guidelines'',
      ''1. Follow the project conventions in CLAUDE.md'',
      ''2. Run quality gates: swiftlint lint --fix && swiftlint lint && swift build && swift test'',
      ''3. Use conventional commit format'',
      ''4. Create meaningful, focused commits'',
      ''5. Never expose sensitive information'',
      '''',
      ''## Ultra Think Analysis Context'',
      ''Complexity: '' @ get_default ''unknown'' (complexity_level (analysis a)),
      ''Risk Level: '' @ get_default ''unknown'' (overall_risk (analysis a)),
      ''Estimated Time: '' @ get_default ''unknown'' (map_option str_int (total_estimated_time_minutes (analysis a))) @ '' minutes'',
      ''Affected Modules: '' @ join '', '' (get_default [] (affected_modules (analysis a))),
      '''',
      ''## Current Task'',
      get_default ''No description available'' (d_body (issue a)),
      '''',
      ''Respond with specific actions you'' @ squote @ ''ll take. When you need to execute commands, clearly state them. Always explain your reasoning for code changes.'']"

text \<open>
  \<^verbatim>\<open>send_message\<close>: the history is only extended after the request has returned and
  the text of its first content block has been read; \<^verbatim>\<open>response.content[0]\<close> raises
  \<open>IndexError\<close> on a response without content. The request is always made with the model
  \<^verbatim>\<open>claude-3-5-sonnet-20241022\<close> and \<^verbatim>\<open>max_tokens=8192\<close>.
\<close>

definition send_message :: "world \<Rightarrow> agent \<Rightarrow> string \<Rightarrow> string option \<Rightarrow> state \<Rightarrow> (exn + string) \<times> state" where
  "send_message w a message system_prompt s =
     (let messages = conversation_history s @ [(''user'', message)];
          system = (case system_prompt of
                      None \<Rightarrow> get_system_prompt a
                    | Some p \<Rightarrow> if p = [] then get_system_prompt a else p);
          res = messages_create w (length (requests s)) system messages;
          s1 = s\<lparr> requests := requests s @ [(system, messages)] \<rparr>
      in case res of
           Inl e \<Rightarrow> (Inl e, log (''API call failed: '' @ str_exn (signals w) e) ''ERROR'' s1)
         | Inr content \<Rightarrow>
             (case content of
                [] \<Rightarrow>
                  (let e = IndexError ''list index out of range''
                   in (Inl e, log (''API call failed: '' @ str_exn (signals w) e) ''ERROR'' s1))
              | assistant_message # _ \<Rightarrow>
                  (Inr assistant_message,
                   s1\<lparr> conversation_history :=
                         conversation_history s1 @ [(''user'', message), (''assistant'', assistant_message)] \<rparr>)))"

subsection \<open>The stages\<close>

text \<open>
  \<^verbatim>\<open>setup_git_authentication\<close>. \<^verbatim>\<open>not github_token\<close> holds for an unset variable and
  for an empty one. The file mode \<^verbatim>\<open>0o600\<close> is 384.
\<close>

definition setup_git_authentication :: "world \<Rightarrow> agent \<Rightarrow> state \<Rightarrow> (exn + unit) \<times> state" where
  "setup_git_authentication w a s =
     (let s0 = log ''Setting up Git authentication...'' ''INFO'' s;
          github_token = getenv w ''GITHUB_TOKEN'';
          git_user_name = get_default ''Claude Agent'' (getenv w ''GIT_USER_NAME'');
          git_user_email = get_default ''claude-agent@anthropic.com'' (getenv w ''GIT_USER_EMAIL'')
      in if github_token = None \<or> github_token = Some [] then
           (Inl (ValueError ''GITHUB_TOKEN environment variable is required''), s0)
         else
           case run_command w a (''git config --global user.name '' @ dquote @ git_user_name @ dquote) True s0 of
             (Inl e, s1) \<Rightarrow> (Inl e, s1)
           | (Inr _, s1) \<Rightarrow>
           case run_command w a (''git config --global user.email '' @ dquote @ git_user_email @ dquote) True s1 of
             (Inl e, s2) \<Rightarrow> (Inl e, s2)
           | (Inr _, s2) \<Rightarrow>
           case run_command w a ''git config --global credential.helper store'' True s2 of
             (Inl e, s3) \<Rightarrow> (Inl e, s3)
           | (Inr _, s3) \<Rightarrow>
           (let credentials_file = workspace a @ ''/.git-credentials'';
                text = ''https://'' @ the github_token @ '':x-oauth-basic@github.com'' @ backslash_n
            in case open_write w credentials_file of
                 Some e \<Rightarrow> (Inl e, s3)
               | None \<Rightarrow>
                 (let s4 = s3\<lparr> files := files s3 @ [(credentials_file, Text text)] \<rparr>
                  in case chmod w credentials_file 384 of
                       Some e \<Rightarrow> (Inl e, s4)
                     | None \<Rightarrow> (Inr (), log ''Git authentication configured successfully'' ''INFO'' s4))))"

definition create_branch :: "world \<Rightarrow> agent \<Rightarrow> state \<Rightarrow> (exn + unit) \<times> state" where
  "create_branch w a s =
     (let s0 = log (''Creating branch: '' @ fmt_str (branch_name a)) ''INFO'' s
      in case run_command w a ''git checkout master || git checkout main'' True s0 of
           (Inl e, s1) \<Rightarrow> (Inl e, s1)
         | (Inr _, s1) \<Rightarrow>
         case run_command w a ''git pull origin master || git pull origin main'' True s1 of
           (Inl e, s2) \<Rightarrow> (Inl e, s2)
         | (Inr _, s2) \<Rightarrow>
         case run_command w a (''git checkout -b '' @ fmt_str (branch_name a)) True s2 of
           (Inl e, s3) \<Rightarrow> (Inl e, s3)
         | (Inr _, s3) \<Rightarrow> (Inr (), log (''Switched to branch: '' @ fmt_str (branch_name a)) ''INFO'' s3))"

text \<open>
  The \<^verbatim>\<open>for\<close> loop of \<^verbatim>\<open>run_quality_gates\<close> over the commands still to run: only a
  \<open>CalledProcessError\<close> is caught and turned into the result \<^verbatim>\<open>False\<close>; any other
  exception leaves the function.
\<close>

fun quality_gates_loop :: "world \<Rightarrow> agent \<Rightarrow> string list \<Rightarrow> state \<Rightarrow> (exn + bool) \<times> state" where
  "quality_gates_loop w a [] s = (Inr True, s)"
| "quality_gates_loop w a (cmd # cmds) s =
     (case run_command w a cmd True s of
        (Inr _, s1) \<Rightarrow> quality_gates_loop w a cmds (log (check_mark @ '' '' @ cmd) ''INFO'' s1)
      | (Inl (CalledProcessError rc c out err), s1) \<Rightarrow>
          (Inr False,
           log (cross_mark @ '' '' @ cmd @ '' failed: '' @ str_exn (signals w) (CalledProcessError rc c out err))
               ''ERROR'' s1)
      | (Inl e, s1) \<Rightarrow> (Inl e, s1))"

definition run_quality_gates :: "world \<Rightarrow> agent \<Rightarrow> state \<Rightarrow> (exn + bool) \<times> state" where
  "run_quality_gates w a s =
     (let s0 = log ''Running quality gates...'' ''INFO'' s;
          commands = [''swiftlint lint --fix'', ''swiftlint lint'', ''swift build'', ''swift test'']
      in case quality_gates_loop w a commands s0 of
           (Inr True, s1) \<Rightarrow> (Inr True, log ''All quality gates passed!'' ''INFO'' s1)
         | (res, s1) \<Rightarrow> (res, s1))"

definition commit_changes :: "world \<Rightarrow> agent \<Rightarrow> string \<Rightarrow> state \<Rightarrow> (exn + unit) \<times> state" where
  "commit_changes w a message s =
     (let s0 = log ''Committing changes...'' ''INFO'' s
      in case run_command w a ''git status --porcelain'' False s0 of
           (Inl e, s1) \<Rightarrow> (Inl e, s1)
         | (Inr (returncode, out, _), s1) \<Rightarrow>
           if strip out = [] then (Inr (), log ''No changes to commit'' ''INFO'' s1)
           else
             case run_command w a ''git add .'' True s1 of
               (Inl e, s2) \<Rightarrow> (Inl e, s2)
             | (Inr _, s2) \<Rightarrow>
             (let commit_message = message @ backslash_n @ backslash_n @ ''Refs #'' @ fmt_int (issue_number a)
                     @ backslash_n @ backslash_n @ robot_mark @ '' Generated with Claude Agent Automation''
              in case run_command w a (''git commit -m '' @ dquote @ commit_message @ dquote) True s2 of
                   (Inl e, s3) \<Rightarrow> (Inl e, s3)
                 | (Inr _, s3) \<Rightarrow> (Inr (), log (''Committed: '' @ message) ''INFO'' s3)))"

definition push_branch :: "world \<Rightarrow> agent \<Rightarrow> state \<Rightarrow> (exn + unit) \<times> state" where
  "push_branch w a s =
     (let s0 = log (''Pushing branch: '' @ fmt_str (branch_name a)) ''INFO'' s
      in case run_command w a (''git push -u origin '' @ fmt_str (branch_name a)) True s0 of
           (Inl e, s1) \<Rightarrow> (Inl e, s1)
         | (Inr _, s1) \<Rightarrow> (Inr (), s1))"

definition pr_title_of :: "agent \<Rightarrow> string" where
  "pr_title_of a =
     get_default (''Resolve #'' @ fmt_int (issue_number a) @ '': '' @ get_default ''Issue'' (d_title (issue a)))
       (d_pr_title (issue a))"

definition pr_body_of :: "agent \<Rightarrow> string" where
  "pr_body_of a = join newline
     [''## Summary'',
      ''Resolves #'' @ fmt_int (issue_number a),
      '''',
      ''This PR addresses the issue: '' @ get_default ''Unknown issue'' (d_title (issue a)),
      '''',
      ''## Changes'',
      ''Implementation based on Ultra Think analysis:'',
      ''- Complexity: '' @ get_default ''unknown'' (complexity_level (analysis a)),
      ''- Risk Level: '' @ get_default ''unknown'' (overall_risk (analysis a)),
      '''',
      ''## Test Plan'',
      ''- [x] All existing tests pass'',
      ''- [x] SwiftLint validation passes  '',
      ''- [x] Code builds successfully'',
      '''',
      robot_mark @ '' Generated with Claude Agent Automation'']"

text \<open>
  The URL \<^verbatim>\<open>create_pull_request\<close> takes from the standard output of the command:
  \<^verbatim>\<open>stdout.strip().split('\\n')[-1] if stdout.strip() else "PR URL not found"\<close>. The
  list \<^verbatim>\<open>split\<close> returns is never empty, so its element \<^verbatim>\<open>[-1]\<close> is its last one.
\<close>

definition extract_pr_url :: "string \<Rightarrow> string" where
  "extract_pr_url out =
     (if strip out \<noteq> [] then last (split (strip out) backslash_n) else ''PR URL not found'')"

definition create_pull_request :: "world \<Rightarrow> agent \<Rightarrow> state \<Rightarrow> (exn + string) \<times> state" where
  "create_pull_request w a s =
     (let s0 = log ''Creating pull request...'' ''INFO'' s;
          pr_title = pr_title_of a;
          pr_body = pr_body_of a
      in case run_command w a (''gh pr create --title '' @ dquote @ pr_title @ dquote
                                @ '' --body '' @ dquote @ pr_body @ dquote) True s0 of
           (Inl e, s1) \<Rightarrow> (Inl e, s1)
         | (Inr (_, out, _), s1) \<Rightarrow>
           (let pr_url = extract_pr_url out
            in (Inr pr_url, log (''Pull request created: '' @ pr_url) ''INFO'' s1)))"

subsection \<open>The implementation loop\<close>

definition max_iterations :: nat where
  "max_iterations = 20"

definition status_message :: "nat \<Rightarrow> string \<Rightarrow> string" where
  "status_message iteration git_status = join newline
     [''Current status (iteration '' @ str_nat iteration @ ''):'',
      ''- Working directory: '' @ (if strip git_status = [] then ''clean'' else ''has changes''),
      ''- Git status: '' @ (if git_status \<noteq> [] then take 500 git_status else ''No changes''),
      '''',
      ''Please continue with the implementation. If you need to run commands, state them clearly.'',
      ''If the implementation is complete, respond with '' @ dquote @ ''IMPLEMENTATION_COMPLETE'' @ dquote @ ''.'']"

text \<open>
  The \<^verbatim>\<open>while iteration < max_iterations\<close> loop, entered with the value of
  \<^verbatim>\<open>iteration\<close>. The result is the exception that left the loop, if one did.
\<close>

function implementation_loop :: "world \<Rightarrow> agent \<Rightarrow> nat \<Rightarrow> state \<Rightarrow> exn option \<times> state" where
  "implementation_loop w a iteration s =
     (if iteration < max_iterations then
        (let iteration' = iteration + 1;
             s0 = log (''Implementation iteration '' @ str_nat iteration' @ ''/'' @ str_nat max_iterations) ''INFO'' s
         in case run_command w a ''git status --porcelain'' False s0 of
              (Inl e, s1) \<Rightarrow> (Some e, s1)
            | (Inr (_, git_status, _), s1) \<Rightarrow>
              (case send_message w a (status_message iteration' git_status) None s1 of
                 (Inl e, s2) \<Rightarrow> (Some e, s2)
               | (Inr response, s2) \<Rightarrow>
                 if contains ''IMPLEMENTATION_COMPLETE'' (upper response) then
                   (None, log ''Implementation marked as complete by Claude'' ''INFO'' s2)
                 else
                   implementation_loop w a iteration'
                     (if list_ex (\<lambda>cmd. contains cmd (lower response))
                           [''swift build'', ''swift test'', ''git'', ''swiftlint'']
                      then log ''Claude suggested commands - manual execution needed'' ''INFO'' s2
                      else s2)))
      else (None, s))"
  by pat_completeness auto
termination
  by (relation "measure (\<lambda>(w, a, iteration, s). max_iterations - iteration)") auto

declare implementation_loop.simps [simp del]

subsection \<open>The workflow\<close>

definition append_step :: "string \<Rightarrow> execution_report \<Rightarrow> execution_report" where
  "append_step name r = r\<lparr> steps := steps r @ [name] \<rparr>"

definition initial_message :: "agent \<Rightarrow> string" where
  "initial_message a = join newline
     [''I need to implement the following GitHub issue:'',
      '''',
      ''**Issue #'' @ fmt_int (issue_number a) @ ''**: '' @ get_default ''Unknown'' (d_title (issue a)),
      '''',
      ''**Description**:'',
      get_default ''No description'' (d_body (issue a)),
      '''',
      ''**Ultra Think Analysis Summary**:'',
      ''- Complexity: '' @ get_default ''unknown'' (complexity_level (analysis a)),
      ''- Estimated Time: '' @ get_default ''unknown'' (map_option str_int (total_estimated_time_minutes (analysis a))) @ '' minutes'',
      ''- Affected Modules: '' @ join '', '' (get_default [] (affected_modules (analysis a))),
      '''',
      ''Please analyze the codebase and provide a step-by-step implementation plan. Start by exploring the relevant files and understanding the current structure.'']"

text \<open>
  The body of the \<^verbatim>\<open>try\<close> block of \<^verbatim>\<open>execute_development_workflow\<close>. It returns the
  exception that left it, if one did, with the report as it stood at that moment: the
  report is a dictionary changed in place, so what was appended before a \<^verbatim>\<open>raise\<close> stays.
\<close>

definition workflow_body :: "world \<Rightarrow> agent \<Rightarrow> execution_report \<Rightarrow> state \<Rightarrow> exn option \<times> execution_report \<times> state" where
  "workflow_body w a r s =
     (let s0 = log ''Starting development workflow...'' ''INFO'' s;
          r1 = append_step ''workflow_started'' r
      in case setup_git_authentication w a s0 of
           (Inl e, s1) \<Rightarrow> (Some e, r1, s1)
         | (Inr _, s1) \<Rightarrow>
      (let r2 = append_step ''git_configured'' r1
       in case create_branch w a s1 of
            (Inl e, s2) \<Rightarrow> (Some e, r2, s2)
          | (Inr _, s2) \<Rightarrow>
      (let r3 = append_step ''branch_created'' r2
       in case send_message w a (initial_message a) None s2 of
            (Inl e, s3) \<Rightarrow> (Some e, r3, s3)
          | (Inr response, s3) \<Rightarrow>
      (let r4 = append_step ''initial_analysis'' r3;
           s4 = log ''Initial analysis completed'' ''INFO'' s3
       in case implementation_loop w a 0 s4 of
            (Some e, s5) \<Rightarrow> (Some e, r4, s5)
          | (None, s5) \<Rightarrow>
      (let r5 = append_step ''implementation_completed'' r4
       in case run_quality_gates w a s5 of
            (Inl e, s6) \<Rightarrow> (Some e, r5, s6)
          | (Inr False, s6) \<Rightarrow> (Some (PyException ''Quality gates failed''), r5, s6)
          | (Inr True, s6) \<Rightarrow>
      (let r6 = append_step ''quality_gates_passed'' r5;
           commit_message = ''feat: implement ''
             @ get_default (''issue #'' @ fmt_int (issue_number a)) (d_title (issue a))
       in case commit_changes w a commit_message s6 of
            (Inl e, s7) \<Rightarrow> (Some e, r6, s7)
          | (Inr _, s7) \<Rightarrow>
      (let r7 = append_step ''changes_committed'' r6
       in case push_branch w a s7 of
            (Inl e, s8) \<Rightarrow> (Some e, r7, s8)
          | (Inr _, s8) \<Rightarrow>
      (let r8 = append_step ''branch_pushed'' r7
       in case create_pull_request w a s8 of
            (Inl e, s9) \<Rightarrow> (Some e, r8, s9)
          | (Inr url, s9) \<Rightarrow>
      (let r9 = append_step ''pr_created'' (r8\<lparr> pr_url := Some url \<rparr>);
           r10 = r9\<lparr> success := True \<rparr>
       in (None, r10, log ''Development workflow completed successfully!'' ''INFO'' s9))))))))))"

text \<open>
  \<^verbatim>\<open>execute_development_workflow\<close>: the report is created (\<open>new_report\<close> is the
  dictionary literal at the head of the function) with the first reading of the clock, the \<^verbatim>\<open>except Exception\<close> handler stores \<^verbatim>\<open>str(e)\<close>, and the \<^verbatim>\<open>finally\<close> block
  reads the clock again.
\<close>

definition new_report :: "world \<Rightarrow> agent \<Rightarrow> execution_report" where
  "new_report w a =
     \<lparr> report_issue_number = issue_number a,
       report_branch_name = branch_name a,
       start_time = time_time w 0,
       steps = [],
       success = False,
       error = None,
       pr_url = None,
       end_time = None,
       duration_seconds = None \<rparr>"

definition execute_development_workflow :: "world \<Rightarrow> agent \<Rightarrow> state \<Rightarrow> execution_report \<times> state" where
  "execute_development_workflow w a s =
     (let execution_report = new_report w a
      in case workflow_body w a execution_report s of
           (raised, r1, s1) \<Rightarrow>
             (let (r2, s2) =
                    (case raised of
                       None \<Rightarrow> (r1, s1)
                     | Some e \<Rightarrow>
                         (r1\<lparr> error := Some (str_exn (signals w) e) \<rparr>,
                          log (''Workflow failed: '' @ str_exn (signals w) e) ''ERROR'' s1));
                  r3 = r2\<lparr> end_time := Some (time_time w 1) \<rparr>;
                  r4 = r3\<lparr> duration_seconds := Some (the (end_time r3) - start_time r3) \<rparr>
              in (r4, s2)))"

subsection \<open>main\<close>

text \<open>
  The four required command-line arguments, after \<^verbatim>\<open>parse_args\<close>.
\<close>

record args =
  issue_data_path :: string
  analysis_data_path :: string
  workspace_path :: string
  output_path :: string

text \<open>
  What a run of the process leaves: its exit code, the lines \<^verbatim>\<open>main\<close> prints on
  standard error and on standard output, and the state of the agent (its log, the
  commands it ran, the files written).
\<close>

record process =
  exit_code :: int
  stderr :: "string list"
  stdout :: "string list"
  final :: state

text \<open>
  An exception nothing catches ends the process with exit code 1 and a traceback on
  standard error; of the traceback only the first line and the message are kept here.
\<close>

definition uncaught :: "world \<Rightarrow> exn \<Rightarrow> state \<Rightarrow> process" where
  "uncaught w e s =
     \<lparr> exit_code = 1,
       stderr = [''Traceback (most recent call last):'', str_exn (signals w) e],
       stdout = [],
       final = s \<rparr>"

definition exit_with_error :: "string \<Rightarrow> process" where
  "exit_with_error msg = \<lparr> exit_code = 1, stderr = [msg], stdout = [], final = initial_state \<rparr>"

text \<open>
  \<^verbatim>\<open>main\<close>. The two loads and the check of \<^verbatim>\<open>ANTHROPIC_API_KEY\<close> are outside the
  \<^verbatim>\<open>try\<close>; \<^verbatim>\<open>sys.exit\<close> inside it raises \<^verbatim>\<open>SystemExit\<close>, which
  \<^verbatim>\<open>except Exception\<close> does not catch.
\<close>

definition main :: "world \<Rightarrow> args \<Rightarrow> process" where
  "main w ar =
     (if \<not> path_exists w (issue_data_path ar) then
        exit_with_error (''Error: Issue data file not found: '' @ issue_data_path ar)
      else if \<not> path_exists w (analysis_data_path ar) then
        exit_with_error (''Error: Analysis data file not found: '' @ analysis_data_path ar)
      else if \<not> path_exists w (workspace_path ar) then
        exit_with_error (''Error: Workspace directory not found: '' @ workspace_path ar)
      else
        case load_issue w (issue_data_path ar) of
          Inl e \<Rightarrow> uncaught w e initial_state
        | Inr issue_data \<Rightarrow>
        case load_analysis w (analysis_data_path ar) of
          Inl e \<Rightarrow> uncaught w e initial_state
        | Inr analysis_data \<Rightarrow>
        (let api_key = getenv w ''ANTHROPIC_API_KEY''
         in if api_key = None \<or> api_key = Some [] then
              exit_with_error ''Error: ANTHROPIC_API_KEY environment variable is required''
            else
              (let agent = ContainerizedClaude issue_data analysis_data (workspace_path ar)
               in case execute_development_workflow w agent initial_state of
                    (execution_report, s) \<Rightarrow>
                      (case open_write w (output_path ar) of
                         Some e \<Rightarrow>
                           \<lparr> exit_code = 1,
                             stderr = [''Fatal error: '' @ str_exn (signals w) e],
                             stdout = [],
                             final = s \<rparr>
                       | None \<Rightarrow>
                           \<lparr> exit_code = (if success execution_report then 0 else 1),
                             stderr = [],
                             stdout =
                               [backslash_n @ ''Execution completed: ''
                                  @ (if success execution_report then ''SUCCESS'' else ''FAILED''),
                                ''Steps completed: '' @ str_nat (length (steps execution_report)),
                                ''Duration: ''
                                  @ format_2f w (get_default 0 (duration_seconds execution_report))
                                  @ '' seconds'',
                                (if success execution_report
                                 then ''PR URL: '' @ fmt_str (pr_url execution_report)
                                 else ''Error: '' @ fmt_str (error execution_report))],
                             final = s\<lparr> files := files s @ [(output_path ar, Report execution_report)] \<rparr> \<rparr>))))"

subsection \<open>The vocabulary of the specification\<close>

text \<open>The milestone names, in the order the workflow appends them.\<close>

definition milestones :: "string list" where
  "milestones =
     [''workflow_started'', ''git_configured'', ''branch_created'', ''initial_analysis'',
      ''implementation_completed'', ''quality_gates_passed'', ''changes_committed'',
      ''branch_pushed'', ''pr_created'']"

text \<open>
  A command invoked with must-succeed semantics that returned a non-zero exit code.
\<close>

definition failed :: "invocation \<Rightarrow> bool" where
  "failed i = (check i \<and> (case outcome i of Inr (rc, out, err) \<Rightarrow> rc \<noteq> 0 | Inl e \<Rightarrow> False))"

text \<open>
  The stage a must-succeed command belongs to, as the position of the stage's milestone in
  \<open>milestones\<close>: the stages are told apart by the programs they run.
\<close>

definition stage_of_command :: "string \<Rightarrow> nat" where
  "stage_of_command cmd =
     (if prefix ''git config '' cmd then 1
      else if prefix ''git checkout '' cmd \<or> prefix ''git pull '' cmd then 2
      else if prefix ''swiftlint '' cmd \<or> prefix ''swift '' cmd then 5
      else if prefix ''git add '' cmd \<or> prefix ''git commit '' cmd then 6
      else if prefix ''git push '' cmd then 7
      else if prefix ''gh pr create '' cmd then 8
      else 0)"

text \<open>
  A text contains a marker, compared without regard to case: the lower-cased marker occurs
  in the lower-cased text.
\<close>

definition contains_ci :: "string \<Rightarrow> string \<Rightarrow> bool" where
  "contains_ci marker txt = contains (lower marker) (lower txt)"

text \<open>The replies of the assistant recorded in a conversation history, in order.\<close>

definition replies_of :: "message list \<Rightarrow> string list" where
  "replies_of h = map snd (filter (\<lambda>m. fst m = ''assistant'') h)"

text \<open>
  The last non-empty line of a text: the lines are the pieces between line feeds, and a
  line is empty when nothing is left of it once its white space is stripped.
\<close>

definition last_nonempty_line :: "string \<Rightarrow> string option" where
  "last_nonempty_line txt =
     (case filter (\<lambda>l. strip l \<noteq> []) (split txt newline) of
        [] \<Rightarrow> None
      | l # ls \<Rightarrow> Some (last (l # ls)))"


subsection \<open>The vocabulary of the proofs\<close>

text \<open>
  Every command of a list was invoked with must-succeed semantics and belongs to the stage
  \<open>k\<close>.
\<close>

definition issued :: "nat \<Rightarrow> invocation list \<Rightarrow> bool" where
  "issued k new = (\<forall>i\<in>set new. check i \<and> stage_of_command (command i) = k)"

text \<open>
  The trace of commands of \<open>s'\<close> is the trace of \<open>s\<close> followed by invocations that all
  satisfy \<open>P\<close>.
\<close>

definition extends :: "(invocation \<Rightarrow> bool) \<Rightarrow> state \<Rightarrow> state \<Rightarrow> bool" where
  "extends P s s' = (\<exists>new. calls s' = calls s @ new \<and> (\<forall>i\<in>set new. P i))"

text \<open>An invocation that did not fail and belongs to a stage before the commit stage.\<close>

definition quiet :: "invocation \<Rightarrow> bool" where
  "quiet i = (\<not> failed i \<and> stage_of_command (command i) < 6)"

text \<open>
  If the invocation failed, it belongs to the stage \<open>k\<close> and the exception \<open>e\<close> that ended
  the workflow has a non-empty text.
\<close>

definition blame :: "world \<Rightarrow> nat \<Rightarrow> exn \<Rightarrow> invocation \<Rightarrow> bool" where
  "blame w k e i = (failed i \<longrightarrow> stage_of_command (command i) = k \<and> str_exn (signals w) e \<noteq> [])"

subsection \<open>Concrete worlds\<close>

text \<open>
  A world given by a script: the shell answers the \<open>n\<close>-th command by its number and its
  text, the outcome of the \<open>n\<close>-th request is read from a list (past its end the assistant
  answers that the implementation is complete), the environment is an association list,
  every path exists and every file operation succeeds.
\<close>

definition scripted :: "(nat \<Rightarrow> string \<Rightarrow> exn + completed) \<Rightarrow> (exn + string list) list \<Rightarrow> (string \<times> string) list \<Rightarrow> world" where
  "scripted shell replies env =
     \<lparr> subprocess_run = (\<lambda>n cmd cwd. shell n cmd),
       messages_create = (\<lambda>n system messages.
          if n < length replies then replies ! n else Inr [''IMPLEMENTATION_COMPLETE'']),
       getenv = map_of env,
       path_exists = (\<lambda>path. True),
       load_issue = (\<lambda>path. Inr
          \<lparr> d_issue_number = Some 7, d_branch_name = Some ''issue-7'', d_owner = Some ''o'',
            d_repo = Some ''r'', d_title = Some ''Fix'', d_body = Some ''Body'', d_pr_title = None \<rparr>),
       load_analysis = (\<lambda>path. Inr
          \<lparr> complexity_level = None, overall_risk = None,
            total_estimated_time_minutes = None, affected_modules = None \<rparr>),
       open_write = (\<lambda>path. None),
       chmod = (\<lambda>path mode. None),
       time_time = (\<lambda>n. real n),
       format_2f = (\<lambda>x. ''0.00''),
       signals = (\<lambda>n. None) \<rparr>"

definition example_agent :: agent where
  "example_agent = ContainerizedClaude
     \<lparr> d_issue_number = Some 7, d_branch_name = Some ''issue-7'', d_owner = Some ''o'',
       d_repo = Some ''r'', d_title = Some ''Fix'', d_body = Some ''Body'', d_pr_title = None \<rparr>
     \<lparr> complexity_level = None, overall_risk = None,
       total_estimated_time_minutes = None, affected_modules = None \<rparr>
     ''/workspace''"

definition example_args :: args where
  "example_args =
     \<lparr> issue_data_path = ''issue.json'', analysis_data_path = ''analysis.json'',
       workspace_path = ''/workspace'', output_path = ''report.json'' \<rparr>"

definition both_tokens :: "(string \<times> string) list" where
  "both_tokens = [(''ANTHROPIC_API_KEY'', ''k''), (''GITHUB_TOKEN'', ''t'')]"

text \<open>The API refuses the first request.\<close>

definition api_down :: world where
  "api_down = scripted (\<lambda>n cmd. Inr (0, [], [])) [Inl (ExternalError ''overloaded'')] both_tokens"

text \<open>The build command fails.\<close>

definition build_breaks :: world where
  "build_breaks = scripted
     (\<lambda>n cmd. if cmd = ''swift build'' then Inr (1, [], ''error: build failed'') else Inr (0, [], []))
     [] both_tokens"

text \<open>The assistant answers the first request with one word.\<close>

definition reply_hello :: world where
  "reply_hello = scripted (\<lambda>n cmd. Inr (0, [], [])) [Inr [''hello'']] both_tokens"

text \<open>The pull-request command prints a progress line and then the URL.\<close>

definition two_lines :: world where
  "two_lines = scripted
     (\<lambda>n cmd. if prefix ''gh pr create '' cmd
               then Inr (0, ''Creating pull request for issue-7 into master in o/r'' @ newline
                            @ ''https://github.com/o/r/pull/1'' @ newline, [])
               else Inr (0, [], []))
     [] both_tokens"

text \<open>
  The pull-request command prints the URL followed by the two characters backslash and n.
\<close>

definition escaped_newline :: world where
  "escaped_newline = scripted
     (\<lambda>n cmd. if prefix ''gh pr create '' cmd
               then Inr (0, ''https://github.com/o/r/pull/1'' @ backslash_n, [])
               else Inr (0, [], []))
     [] both_tokens"


text \<open>The assistant answers twice; its second reply holds the marker in mixed case.\<close>

definition two_turns :: world where
  "two_turns = scripted (\<lambda>n cmd. Inr (0, [], []))
     [Inr [''Working on it''], Inr [''Implementation_Complete: all done'']] both_tokens"

section \<open>Properties\<close>

subsection \<open>Basic facts\<close>

lemma log_sel [simp]:
  "conversation_history (log m l s) = conversation_history s"
  "calls (log m l s) = calls s"
  "requests (log m l s) = requests s"
  "files (log m l s) = files s"
  by (simp_all add: log_def)

lemma take_milestones:
  "take (Suc 0) milestones = [''workflow_started'']"
  "take 2 milestones = [''workflow_started'', ''git_configured'']"
  "take 3 milestones = [''workflow_started'', ''git_configured'', ''branch_created'']"
  "take 4 milestones = [''workflow_started'', ''git_configured'', ''branch_created'', ''initial_analysis'']"
  "take 5 milestones = [''workflow_started'', ''git_configured'', ''branch_created'', ''initial_analysis'',
      ''implementation_completed'']"
  "take 6 milestones = [''workflow_started'', ''git_configured'', ''branch_created'', ''initial_analysis'',
      ''implementation_completed'', ''quality_gates_passed'']"
  "take 7 milestones = [''workflow_started'', ''git_configured'', ''branch_created'', ''initial_analysis'',
      ''implementation_completed'', ''quality_gates_passed'', ''changes_committed'']"
  "take 8 milestones = [''workflow_started'', ''git_configured'', ''branch_created'', ''initial_analysis'',
      ''implementation_completed'', ''quality_gates_passed'', ''changes_committed'', ''branch_pushed'']"
  by (simp_all add: milestones_def)

lemma str_exn_called [simp]: "str_exn sigs (CalledProcessError rc cmd out err) \<noteq> []"
  by (simp split: option.splits)

lemma failed_simps [simp]:
  "failed \<lparr>command = c, check = k, outcome = Inl e\<rparr> = False"
  "failed \<lparr>command = c, check = k, outcome = Inr (rc, out, err)\<rparr> = (k \<and> rc \<noteq> 0)"
  by (simp_all add: failed_def)

lemma run_command_Inr:
  assumes "run_command w a cmd chk s = (Inr (rc, out, err), s')"
  shows "calls s' = calls s @ [\<lparr>command = cmd, check = chk, outcome = Inr (rc, out, err)\<rparr>]
         \<and> subprocess_run w (length (calls s)) cmd (workspace a) = Inr (rc, out, err)
         \<and> (chk \<longrightarrow> rc = 0)
         \<and> conversation_history s' = conversation_history s
         \<and> requests s' = requests s \<and> files s' = files s"
  using assms
  by (auto simp: run_command_def Let_def split: sum.splits if_splits)

lemma run_command_Inl:
  assumes "run_command w a cmd chk s = (Inl e, s')"
  shows "calls s' = calls s @ [\<lparr>command = cmd, check = chk,
                                 outcome = subprocess_run w (length (calls s)) cmd (workspace a)\<rparr>]
         \<and> (subprocess_run w (length (calls s)) cmd (workspace a) = Inl e
              \<or> chk \<and> (\<exists>rc out err. subprocess_run w (length (calls s)) cmd (workspace a) = Inr (rc, out, err)
                                     \<and> rc \<noteq> 0 \<and> e = CalledProcessError rc cmd out err))
         \<and> conversation_history s' = conversation_history s
         \<and> requests s' = requests s \<and> files s' = files s"
  using assms
  by (auto simp: run_command_def Let_def split: sum.splits if_splits)

subsection \<open>run\_command\<close>

text \<open>
  C5. When the command has run and returned the code \<open>rc\<close> with the streams \<open>out\<close> and
  \<open>err\<close>: with the must-succeed flag set and \<open>rc\<close> not zero, \<open>run_command\<close> raises a
  \<open>CalledProcessError\<close> carrying \<open>rc\<close>, the command and both streams; with the flag unset
  it raises nothing and returns \<open>(rc, out, err)\<close>, whatever \<open>rc\<close> is.
\<close>

theorem run_command_check:
  assumes "subprocess_run w (length (calls s)) cmd (workspace a) = Inr (rc, out, err)"
  shows "(chk \<and> rc \<noteq> 0 \<longrightarrow> fst (run_command w a cmd chk s) = Inl (CalledProcessError rc cmd out err))
       \<and> (\<not> chk \<longrightarrow> fst (run_command w a cmd chk s) = Inr (rc, out, err))"
  using assms by (simp add: run_command_def log_def Let_def)

theorem run_command_check_witness:
  "fst (run_command (scripted (\<lambda>n cmd. Inr (2, ''o'', ''e'')) [] []) example_agent ''swift build'' True initial_state)
     = Inl (CalledProcessError 2 ''swift build'' ''o'' ''e'')
   \<and> fst (run_command (scripted (\<lambda>n cmd. Inr (2, ''o'', ''e'')) [] []) example_agent ''swift build'' False initial_state)
     = Inr (2, ''o'', ''e'')"
  using run_command_check [of "scripted (\<lambda>n cmd. Inr (2, ''o'', ''e'')) [] []" initial_state "''swift build''"
                              example_agent 2 "''o''" "''e''" True]
        run_command_check [of "scripted (\<lambda>n cmd. Inr (2, ''o'', ''e'')) [] []" initial_state "''swift build''"
                              example_agent 2 "''o''" "''e''" False]
  by (simp add: scripted_def initial_state_def)

subsection \<open>The stages of the workflow\<close>

lemmas body_simps = workflow_body_def Let_def append_step_def take_milestones

lemma workflow_body_cases [consumes 1, case_names auth branch analysis loop gates_raise gates_fail commit push pr finished]:
  assumes body: "workflow_body w a r s = (raised, r', s')"
  obtains
    (auth) e where
      "setup_git_authentication w a (log ''Starting development workflow...'' ''INFO'' s) = (Inl e, s')"
      "raised = Some e" "r' = r\<lparr>steps := steps r @ take 1 milestones\<rparr>"
  | (branch) s1 e where
      "setup_git_authentication w a (log ''Starting development workflow...'' ''INFO'' s) = (Inr (), s1)"
      "create_branch w a s1 = (Inl e, s')"
      "raised = Some e" "r' = r\<lparr>steps := steps r @ take 2 milestones\<rparr>"
  | (analysis) s1 s2 e where
      "setup_git_authentication w a (log ''Starting development workflow...'' ''INFO'' s) = (Inr (), s1)"
      "create_branch w a s1 = (Inr (), s2)"
      "send_message w a (initial_message a) None s2 = (Inl e, s')"
      "raised = Some e" "r' = r\<lparr>steps := steps r @ take 3 milestones\<rparr>"
  | (loop) s1 s2 reply s3 e where
      "setup_git_authentication w a (log ''Starting development workflow...'' ''INFO'' s) = (Inr (), s1)"
      "create_branch w a s1 = (Inr (), s2)"
      "send_message w a (initial_message a) None s2 = (Inr reply, s3)"
      "implementation_loop w a 0 (log ''Initial analysis completed'' ''INFO'' s3) = (Some e, s')"
      "raised = Some e" "r' = r\<lparr>steps := steps r @ take 4 milestones\<rparr>"
  | (gates_raise) s1 s2 reply s3 s5 e where
      "setup_git_authentication w a (log ''Starting development workflow...'' ''INFO'' s) = (Inr (), s1)"
      "create_branch w a s1 = (Inr (), s2)"
      "send_message w a (initial_message a) None s2 = (Inr reply, s3)"
      "implementation_loop w a 0 (log ''Initial analysis completed'' ''INFO'' s3) = (None, s5)"
      "run_quality_gates w a s5 = (Inl e, s')"
      "raised = Some e" "r' = r\<lparr>steps := steps r @ take 5 milestones\<rparr>"
  | (gates_fail) s1 s2 reply s3 s5 where
      "setup_git_authentication w a (log ''Starting development workflow...'' ''INFO'' s) = (Inr (), s1)"
      "create_branch w a s1 = (Inr (), s2)"
      "send_message w a (initial_message a) None s2 = (Inr reply, s3)"
      "implementation_loop w a 0 (log ''Initial analysis completed'' ''INFO'' s3) = (None, s5)"
      "run_quality_gates w a s5 = (Inr False, s')"
      "raised = Some (PyException ''Quality gates failed'')" "r' = r\<lparr>steps := steps r @ take 5 milestones\<rparr>"
  | (commit) s1 s2 reply s3 s5 s6 msg e where
      "setup_git_authentication w a (log ''Starting development workflow...'' ''INFO'' s) = (Inr (), s1)"
      "create_branch w a s1 = (Inr (), s2)"
      "send_message w a (initial_message a) None s2 = (Inr reply, s3)"
      "implementation_loop w a 0 (log ''Initial analysis completed'' ''INFO'' s3) = (None, s5)"
      "run_quality_gates w a s5 = (Inr True, s6)"
      "commit_changes w a msg s6 = (Inl e, s')"
      "raised = Some e" "r' = r\<lparr>steps := steps r @ take 6 milestones\<rparr>"
  | (push) s1 s2 reply s3 s5 s6 msg s7 e where
      "setup_git_authentication w a (log ''Starting development workflow...'' ''INFO'' s) = (Inr (), s1)"
      "create_branch w a s1 = (Inr (), s2)"
      "send_message w a (initial_message a) None s2 = (Inr reply, s3)"
      "implementation_loop w a 0 (log ''Initial analysis completed'' ''INFO'' s3) = (None, s5)"
      "run_quality_gates w a s5 = (Inr True, s6)"
      "commit_changes w a msg s6 = (Inr (), s7)"
      "push_branch w a s7 = (Inl e, s')"
      "raised = Some e" "r' = r\<lparr>steps := steps r @ take 7 milestones\<rparr>"
  | (pr) s1 s2 reply s3 s5 s6 msg s7 s8 e where
      "setup_git_authentication w a (log ''Starting development workflow...'' ''INFO'' s) = (Inr (), s1)"
      "create_branch w a s1 = (Inr (), s2)"
      "send_message w a (initial_message a) None s2 = (Inr reply, s3)"
      "implementation_loop w a 0 (log ''Initial analysis completed'' ''INFO'' s3) = (None, s5)"
      "run_quality_gates w a s5 = (Inr True, s6)"
      "commit_changes w a msg s6 = (Inr (), s7)"
      "push_branch w a s7 = (Inr (), s8)"
      "create_pull_request w a s8 = (Inl e, s')"
      "raised = Some e" "r' = r\<lparr>steps := steps r @ take 8 milestones\<rparr>"
  | (finished) s1 s2 reply s3 s5 s6 msg s7 s8 url s9 where
      "setup_git_authentication w a (log ''Starting development workflow...'' ''INFO'' s) = (Inr (), s1)"
      "create_branch w a s1 = (Inr (), s2)"
      "send_message w a (initial_message a) None s2 = (Inr reply, s3)"
      "implementation_loop w a 0 (log ''Initial analysis completed'' ''INFO'' s3) = (None, s5)"
      "run_quality_gates w a s5 = (Inr True, s6)"
      "commit_changes w a msg s6 = (Inr (), s7)"
      "push_branch w a s7 = (Inr (), s8)"
      "create_pull_request w a s8 = (Inr url, s9)"
      "s' = log ''Development workflow completed successfully!'' ''INFO'' s9"
      "raised = None" "r' = r\<lparr>steps := steps r @ milestones, pr_url := Some url, success := True\<rparr>"
proof -
  obtain x1 s1 where e1:
    "setup_git_authentication w a (log ''Starting development workflow...'' ''INFO'' s) = (x1, s1)"
    by fastforce
  show thesis
  proof (cases x1)
    case (Inl e)
    with body e1 show thesis
      by (intro auth [of e]) (auto simp: body_simps)
  next
    case Inr
    with e1 have e1': "setup_git_authentication w a (log ''Starting development workflow...'' ''INFO'' s) = (Inr (), s1)"
      by simp
    obtain x2 s2 where e2: "create_branch w a s1 = (x2, s2)" by fastforce
    show thesis
    proof (cases x2)
      case (Inl e)
      with body e1' e2 show thesis
        by (intro branch [of s1 e]) (auto simp: body_simps)
    next
      case Inr
      with e2 have e2': "create_branch w a s1 = (Inr (), s2)" by simp
      obtain x3 s3 where e3: "send_message w a (initial_message a) None s2 = (x3, s3)" by fastforce
      show thesis
      proof (cases x3)
        case (Inl e)
        with body e1' e2' e3 show thesis
          by (intro analysis [of s1 s2 e]) (auto simp: body_simps)
      next
        case (Inr reply)
        with e3 have e3': "send_message w a (initial_message a) None s2 = (Inr reply, s3)" by simp
        obtain x4 s5 where e4:
          "implementation_loop w a 0 (log ''Initial analysis completed'' ''INFO'' s3) = (x4, s5)"
          by fastforce
        show thesis
        proof (cases x4)
          case (Some e)
          with body e1' e2' e3' e4 show thesis
            by (intro loop [of s1 s2 reply s3 e]) (auto simp: body_simps)
        next
          case None
          with e4 have e4':
            "implementation_loop w a 0 (log ''Initial analysis completed'' ''INFO'' s3) = (None, s5)"
            by simp
          obtain x5 s6 where e5: "run_quality_gates w a s5 = (x5, s6)" by fastforce
          show thesis
          proof (cases x5)
            case (Inl e)
            with body e1' e2' e3' e4' e5 show thesis
              by (intro gates_raise [of s1 s2 reply s3 s5 e]) (auto simp: body_simps)
          next
            case (Inr passed)
            show thesis
            proof (cases passed)
              case False
              with Inr body e1' e2' e3' e4' e5 show thesis
                by (intro gates_fail [of s1 s2 reply s3 s5]) (auto simp: body_simps)
            next
              case True
              with Inr e5 have e5': "run_quality_gates w a s5 = (Inr True, s6)" by simp
              define msg where "msg = ''feat: implement ''
                 @ get_default (''issue #'' @ fmt_int (issue_number a)) (d_title (issue a))"
              obtain x6 s7 where e6: "commit_changes w a msg s6 = (x6, s7)" by fastforce
              show thesis
              proof (cases x6)
                case (Inl e)
                with body e1' e2' e3' e4' e5' e6 show thesis
                  by (intro commit [of s1 s2 reply s3 s5 s6 msg e]) (auto simp: body_simps msg_def)
              next
                case Inr
                with e6 have e6': "commit_changes w a msg s6 = (Inr (), s7)" by simp
                obtain x7 s8 where e7: "push_branch w a s7 = (x7, s8)" by fastforce
                show thesis
                proof (cases x7)
                  case (Inl e)
                  with body e1' e2' e3' e4' e5' e6' e7 show thesis
                    by (intro push [of s1 s2 reply s3 s5 s6 msg s7 e]) (auto simp: body_simps msg_def)
                next
                  case Inr
                  with e7 have e7': "push_branch w a s7 = (Inr (), s8)" by simp
                  obtain x8 s9 where e8: "create_pull_request w a s8 = (x8, s9)" by fastforce
                  show thesis
                  proof (cases x8)
                    case (Inl e)
                    with body e1' e2' e3' e4' e5' e6' e7' e8 show thesis
                      by (intro pr [of s1 s2 reply s3 s5 s6 msg s7 s8 e]) (auto simp: body_simps msg_def)
                  next
                    case (Inr url)
                    with body e1' e2' e3' e4' e5' e6' e7' e8 show thesis
                      by (intro finished [of s1 s2 reply s3 s5 s6 msg s7 s8 url s9])
                         (auto simp: body_simps msg_def milestones_def)
                  qed
                qed
              qed
            qed
          qed
        qed
      qed
    qed
  qed
qed

lemma issued_simps [simp]:
  "issued k []"
  "issued k (i # is) = (check i \<and> stage_of_command (command i) = k \<and> issued k is)"
  "issued k (xs @ ys) = (issued k xs \<and> issued k ys)"
  by (auto simp: issued_def)

lemma setup_git_authentication_calls:
  assumes "setup_git_authentication w a s = (res, s')"
  shows "\<exists>new. calls s' = calls s @ new \<and> issued 1 new
           \<and> (case res of
                 Inr u \<Rightarrow> (\<forall>i\<in>set new. \<not> failed i)
               | Inl e \<Rightarrow> (\<forall>i\<in>set new. failed i \<longrightarrow> str_exn (signals w) e \<noteq> []))"
  using assms
  unfolding setup_git_authentication_def Let_def
  by (auto simp: stage_of_command_def split: if_splits prod.splits sum.splits option.splits
           dest!: run_command_Inr run_command_Inl)

lemma create_branch_calls:
  assumes "create_branch w a s = (res, s')"
  shows "\<exists>new. calls s' = calls s @ new \<and> issued 2 new
           \<and> (case res of
                 Inr u \<Rightarrow> (\<forall>i\<in>set new. \<not> failed i)
               | Inl e \<Rightarrow> (\<forall>i\<in>set new. failed i \<longrightarrow> str_exn (signals w) e \<noteq> []))"
  using assms
  unfolding create_branch_def Let_def
  by (auto simp: stage_of_command_def split: if_splits prod.splits sum.splits option.splits
           dest!: run_command_Inr run_command_Inl)

lemma send_message_calls:
  assumes "send_message w a message sp s = (res, s')"
  shows "calls s' = calls s"
  using assms
  by (auto simp: send_message_def Let_def split: sum.splits list.splits)

lemma implementation_loop_calls:
  assumes "implementation_loop w a k s = (res, s')"
  shows "\<exists>new. calls s' = calls s @ new
           \<and> (\<forall>i\<in>set new. \<not> check i \<and> command i = ''git status --porcelain'')"
  using assms
proof (induction w a k s rule: implementation_loop.induct)
  case (1 w a iteration s)
  show ?case
  proof (cases "iteration < max_iterations")
    case False
    with "1.prems" show ?thesis by (simp add: implementation_loop.simps)
  next
    case True
    let ?s0 = "log (''Implementation iteration '' @ str_nat (iteration + 1) @ ''/'' @ str_nat max_iterations) ''INFO'' s"
    obtain x1 s1 where e1: "run_command w a ''git status --porcelain'' False ?s0 = (x1, s1)" by fastforce
    show ?thesis
    proof (cases x1)
      case (Inl e)
      with True e1 "1.prems" show ?thesis
        by (auto simp: implementation_loop.simps [of w a iteration s] Let_def dest!: run_command_Inl)
    next
      case (Inr c)
      obtain rc git_status err where c: "c = (rc, git_status, err)" by (cases c)
      from e1 Inr c have c1: "calls s1 = calls s @ [\<lparr>command = ''git status --porcelain'', check = False, outcome = Inr (rc, git_status, err)\<rparr>]"
        by (auto dest!: run_command_Inr)
      obtain x2 s2 where e2: "send_message w a (status_message (iteration + 1) git_status) None s1 = (x2, s2)"
        by fastforce
      then have c2: "calls s2 = calls s1" by (rule send_message_calls)
      show ?thesis
      proof (cases x2)
        case (Inl e)
        with True e1 Inr c e2 "1.prems" c1 c2 show ?thesis
          by (auto simp: implementation_loop.simps [of w a iteration s] Let_def)
      next
        case (Inr response)
        note r = Inr
        show ?thesis
        proof (cases "contains ''IMPLEMENTATION_COMPLETE'' (upper response)")
          case True
          with \<open>iteration < max_iterations\<close> e1 \<open>x1 = Inr c\<close> c e2 r "1.prems" c1 c2 show ?thesis
            by (auto simp: implementation_loop.simps [of w a iteration s] Let_def)
        next
          case False
          let ?s3 = "(if list_ex (\<lambda>cmd. contains cmd (lower response))
                           [''swift build'', ''swift test'', ''git'', ''swiftlint'']
                      then log ''Claude suggested commands - manual execution needed'' ''INFO'' s2
                      else s2)"
          from \<open>iteration < max_iterations\<close> e1 \<open>x1 = Inr c\<close> c e2 r False "1.prems"
          have rec: "implementation_loop w a (iteration + 1) ?s3 = (res, s')"
            by (simp add: implementation_loop.simps [of w a iteration s] Let_def)
          have "\<exists>new. calls s' = calls ?s3 @ new
                  \<and> (\<forall>i\<in>set new. \<not> check i \<and> command i = ''git status --porcelain'')"
            by (rule "1.IH" [OF \<open>iteration < max_iterations\<close> refl refl e1 [symmetric] \<open>x1 = Inr c\<close>
                  c [symmetric] refl e2 [symmetric] r False rec])
          moreover have "calls ?s3 = calls s2" by simp
          ultimately show ?thesis using c1 c2 by auto
        qed
      qed
    qed
  qed
qed

lemma quality_gates_loop_calls:
  assumes "quality_gates_loop w a cmds s = (res, s')" and "\<forall>c\<in>set cmds. stage_of_command c = 5"
  shows "\<exists>new. calls s' = calls s @ new \<and> issued 5 new
           \<and> (res \<noteq> Inr False \<longrightarrow> (\<forall>i\<in>set new. \<not> failed i))"
  using assms
proof (induction cmds arbitrary: s)
  case Nil
  then show ?case by simp
next
  case (Cons cmd cmds)
  obtain x1 s1 where e1: "run_command w a cmd True s = (x1, s1)" by fastforce
  show ?case
  proof (cases x1)
    case (Inl e)
    with e1 Cons.prems show ?thesis
      by (cases e) (auto dest!: run_command_Inl)
  next
    case (Inr c)
    obtain rc out err where c: "c = (rc, out, err)" by (cases c)
    from e1 Inr c have c1: "calls s1 = calls s @ [\<lparr>command = cmd, check = True, outcome = Inr (rc, out, err)\<rparr>]"
      and rc: "rc = 0"
      by (auto dest!: run_command_Inr)
    from e1 Inr Cons.prems have "quality_gates_loop w a cmds (log (check_mark @ '' '' @ cmd) ''INFO'' s1) = (res, s')"
      by simp
    from Cons.IH [OF this] Cons.prems(2)
    obtain new where "calls s' = calls s1 @ new" "issued 5 new" "res \<noteq> Inr False \<longrightarrow> (\<forall>i\<in>set new. \<not> failed i)"
      by auto
    with c1 rc Cons.prems(2) show ?thesis
      by (intro exI [of _ "\<lparr>command = cmd, check = True, outcome = Inr (rc, out, err)\<rparr> # new"]) auto
  qed
qed

lemma run_quality_gates_calls:
  assumes "run_quality_gates w a s = (res, s')"
  shows "\<exists>new. calls s' = calls s @ new \<and> issued 5 new
           \<and> (res \<noteq> Inr False \<longrightarrow> (\<forall>i\<in>set new. \<not> failed i))"
proof -
  let ?cmds = "[''swiftlint lint --fix'', ''swiftlint lint'', ''swift build'', ''swift test'']"
  obtain x s1 where e: "quality_gates_loop w a ?cmds (log ''Running quality gates...'' ''INFO'' s) = (x, s1)"
    by fastforce
  have "\<forall>c\<in>set ?cmds. stage_of_command c = 5"
    by (simp add: stage_of_command_def)
  from quality_gates_loop_calls [OF e this]
  obtain new where n: "calls s1 = calls s @ new" "issued 5 new" "x \<noteq> Inr False \<longrightarrow> (\<forall>i\<in>set new. \<not> failed i)"
    by auto
  from assms e have "calls s' = calls s1 \<and> res = x"
    by (auto simp: run_quality_gates_def Let_def split: sum.splits bool.splits)
  with n show ?thesis by auto
qed

lemma commit_changes_calls:
  assumes "commit_changes w a msg s = (res, s')"
  shows "\<exists>oc rest. calls s' = calls s @ \<lparr>command = ''git status --porcelain'', check = False, outcome = oc\<rparr> # rest
           \<and> oc = subprocess_run w (length (calls s)) ''git status --porcelain'' (workspace a)
           \<and> issued 6 rest
           \<and> (\<forall>rc out err. oc = Inr (rc, out, err) \<and> strip out = [] \<longrightarrow> rest = [] \<and> res = Inr ())
           \<and> (case res of
                 Inr u \<Rightarrow> (\<forall>i\<in>set rest. \<not> failed i)
               | Inl e \<Rightarrow> (\<forall>i\<in>set rest. failed i \<longrightarrow> str_exn (signals w) e \<noteq> []))"
  using assms
  unfolding commit_changes_def Let_def
  by (auto simp: stage_of_command_def split: if_splits prod.splits sum.splits option.splits
           dest!: run_command_Inr run_command_Inl)

lemma push_branch_calls:
  assumes "push_branch w a s = (res, s')"
  shows "\<exists>oc. calls s' = calls s @ [\<lparr>command = ''git push -u origin '' @ fmt_str (branch_name a), check = True, outcome = oc\<rparr>]
           \<and> (case res of
                 Inr u \<Rightarrow> (\<exists>out err. oc = Inr (0, out, err))
               | Inl e \<Rightarrow> (\<forall>out err. oc \<noteq> Inr (0, out, err))
                          \<and> (failed \<lparr>command = ''git push -u origin '' @ fmt_str (branch_name a), check = True, outcome = oc\<rparr>
                               \<longrightarrow> str_exn (signals w) e \<noteq> []))"
  using assms
  unfolding push_branch_def Let_def
  by (auto simp: split: if_splits prod.splits sum.splits option.splits
           dest!: run_command_Inr run_command_Inl)

lemma create_pull_request_calls:
  assumes "create_pull_request w a s = (res, s')"
  shows "\<exists>cmd oc. calls s' = calls s @ [\<lparr>command = cmd, check = True, outcome = oc\<rparr>]
           \<and> prefix ''gh pr create '' cmd
           \<and> (case res of
                 Inr url \<Rightarrow> (\<exists>out err. oc = Inr (0, out, err) \<and> url = extract_pr_url out)
               | Inl e \<Rightarrow> (failed \<lparr>command = cmd, check = True, outcome = oc\<rparr>
                               \<longrightarrow> str_exn (signals w) e \<noteq> []))"
  using assms
  unfolding create_pull_request_def Let_def
  by (auto simp: split: if_splits prod.splits sum.splits option.splits
           dest!: run_command_Inr run_command_Inl)

lemma extends_trans: "extends P s s1 \<Longrightarrow> extends P s1 s2 \<Longrightarrow> extends P s s2"
  by (auto simp: extends_def)

lemma extends_mono: "extends P s s' \<Longrightarrow> (\<And>i. P i \<Longrightarrow> Q i) \<Longrightarrow> extends Q s s'"
  by (auto simp: extends_def)

lemma extends_same: "calls s' = calls s \<Longrightarrow> extends P s s'"
  by (simp add: extends_def)

lemma extends_log [simp]:
  "extends P (log m l s) s' = extends P s s'"
  "extends P s (log m l s') = extends P s s'"
  by (simp_all add: extends_def)

lemma quiet_blame: "quiet i \<Longrightarrow> blame w k e i"
  by (simp add: quiet_def blame_def)

lemma failed_unchecked: "\<not> check i \<Longrightarrow> \<not> failed i"
  by (simp add: failed_def)

lemma failed_status [simp]: "\<not> failed \<lparr>command = c, check = False, outcome = oc\<rparr>"
  by (simp add: failed_def)

lemma stage_status [simp]: "stage_of_command ''git status --porcelain'' = 0"
  by (simp add: stage_of_command_def)

lemma setup_quiet:
  assumes "setup_git_authentication w a s = (Inr u, s')"
  shows "extends quiet s s'"
  using setup_git_authentication_calls [OF assms]
  by (auto simp: extends_def quiet_def issued_def)

lemma setup_blame:
  assumes "setup_git_authentication w a s = (Inl e, s')"
  shows "extends (blame w 1 e) s s'"
  using setup_git_authentication_calls [OF assms]
  by (auto simp: extends_def blame_def issued_def)

lemma branch_quiet:
  assumes "create_branch w a s = (Inr u, s')"
  shows "extends quiet s s'"
  using create_branch_calls [OF assms]
  by (auto simp: extends_def quiet_def issued_def)

lemma branch_blame:
  assumes "create_branch w a s = (Inl e, s')"
  shows "extends (blame w 2 e) s s'"
  using create_branch_calls [OF assms]
  by (auto simp: extends_def blame_def issued_def)

lemma send_message_extends:
  assumes "send_message w a message sp s = (res, s')"
  shows "extends P s s'"
  using send_message_calls [OF assms] by (rule extends_same)

lemma loop_quiet:
  assumes "implementation_loop w a k s = (res, s')"
  shows "extends quiet s s'"
  using implementation_loop_calls [OF assms]
  by (auto simp: extends_def quiet_def failed_unchecked)

lemma gates_quiet:
  assumes "run_quality_gates w a s = (res, s')" and "res \<noteq> Inr False"
  shows "extends quiet s s'"
  using run_quality_gates_calls [OF assms(1)] assms(2)
  by (auto simp: extends_def quiet_def issued_def)

lemma gates_blame:
  assumes "run_quality_gates w a s = (Inr False, s')"
  shows "extends (blame w 5 (PyException ''Quality gates failed'')) s s'"
  using run_quality_gates_calls [OF assms]
  by (auto simp: extends_def blame_def issued_def)

lemma commit_clean:
  assumes "commit_changes w a msg s = (Inr u, s')"
  shows "extends (\<lambda>i. \<not> failed i) s s'"
  using commit_changes_calls [OF assms]
  by (auto simp: extends_def)

lemma commit_blame:
  assumes "commit_changes w a msg s = (Inl e, s')"
  shows "extends (blame w 6 e) s s'"
  using commit_changes_calls [OF assms]
  by (auto simp: extends_def blame_def issued_def)

lemma push_clean:
  assumes "push_branch w a s = (Inr u, s')"
  shows "extends (\<lambda>i. \<not> failed i) s s'"
  using push_branch_calls [OF assms]
  by (auto simp: extends_def)

lemma push_blame:
  assumes "push_branch w a s = (Inl e, s')"
  shows "extends (blame w 7 e) s s'"
  using push_branch_calls [OF assms]
  by (auto simp: extends_def blame_def stage_of_command_def)

lemma pr_clean:
  assumes "create_pull_request w a s = (Inr u, s')"
  shows "extends (\<lambda>i. \<not> failed i) s s'"
  using create_pull_request_calls [OF assms]
  by (auto simp: extends_def)

lemma stage_gh: "prefix ''gh pr create '' cmd \<Longrightarrow> stage_of_command cmd = 8"
  by (auto simp: stage_of_command_def elim!: prefixE)

lemma pr_blame:
  assumes "create_pull_request w a s = (Inl e, s')"
  shows "extends (blame w 8 e) s s'"
  using create_pull_request_calls [OF assms]
  by (auto simp: extends_def blame_def stage_gh simp del: failed_simps)

lemma blame_after_quiet:
  assumes "extends quiet s s1" and "extends (blame w k e) s1 s'"
  shows "extends (blame w k e) s s'"
  by (rule extends_trans [OF extends_mono [OF assms(1) quiet_blame] assms(2)])

lemma clean_after_quiet:
  assumes "extends quiet s s1" and "extends (\<lambda>i. \<not> failed i) s1 s'"
  shows "extends (\<lambda>i. \<not> failed i) s s'"
  by (rule extends_trans [OF extends_mono [OF assms(1)] assms(2)]) (simp add: quiet_def)

lemma blame_after_clean:
  assumes "extends (\<lambda>i. \<not> failed i) s s1" and "extends (blame w k e) s1 s'"
  shows "extends (blame w k e) s s'"
  by (rule extends_trans [OF extends_mono [OF assms(1)] assms(2)]) (simp add: blame_def)

lemma through_branch:
  assumes "setup_git_authentication w a (log m l s) = (Inr (), s1)"
    and "create_branch w a s1 = (Inr (), s2)"
  shows "extends quiet s s2"
  using extends_trans [OF setup_quiet [OF assms(1)] branch_quiet [OF assms(2)]] by simp

lemma through_loop:
  assumes "setup_git_authentication w a (log m l s) = (Inr (), s1)"
    and "create_branch w a s1 = (Inr (), s2)"
    and "send_message w a message sp s2 = (res, s3)"
    and "implementation_loop w a k (log m' l' s3) = (res', s5)"
  shows "extends quiet s s5"
proof -
  have "extends quiet s s3"
    by (rule extends_trans [OF through_branch [OF assms(1,2)] send_message_extends [OF assms(3)]])
  moreover have "extends quiet s3 s5"
    using loop_quiet [OF assms(4)] by simp
  ultimately show ?thesis by (rule extends_trans)
qed

lemma through_gates:
  assumes "setup_git_authentication w a (log m l s) = (Inr (), s1)"
    and "create_branch w a s1 = (Inr (), s2)"
    and "send_message w a message sp s2 = (res, s3)"
    and "implementation_loop w a k (log m' l' s3) = (res', s5)"
    and "run_quality_gates w a s5 = (res'', s6)" and "res'' \<noteq> Inr False"
  shows "extends quiet s s6"
  by (rule extends_trans [OF through_loop [OF assms(1-4)] gates_quiet [OF assms(5,6)]])

lemma workflow_body_raised:
  assumes "workflow_body w a r s = (Some e, r', s')"
  shows "\<exists>k. 1 \<le> k \<and> k \<le> 8 \<and> r' = r\<lparr>steps := steps r @ take k milestones\<rparr>
             \<and> extends (blame w k e) s s'"
  using assms
proof (cases rule: workflow_body_cases)
  case (auth e')
  then have "extends (blame w 1 e) s s'"
    using setup_blame [OF auth(1)] by simp
  with auth show ?thesis by (intro exI [of _ 1]) simp
next
  case (branch s1 e')
  then have "extends (blame w 2 e) s s'"
    using blame_after_quiet [OF setup_quiet [OF branch(1)] branch_blame [OF branch(2)]] by simp
  with branch show ?thesis by (intro exI [of _ 2]) simp
next
  case (analysis s1 s2 e')
  have "extends (blame w 3 e) s s'"
    by (rule blame_after_quiet [OF through_branch [OF analysis(1,2)] send_message_extends [OF analysis(3)]])
  with analysis show ?thesis by (intro exI [of _ 3]) simp
next
  case (loop s1 s2 reply s3 e')
  have "extends (blame w 4 e) s s'"
    by (rule extends_mono [OF through_loop [OF loop(1-4)] quiet_blame])
  with loop show ?thesis by (intro exI [of _ 4]) simp
next
  case (gates_raise s1 s2 reply s3 s5 e')
  have "extends (blame w 5 e) s s'"
    by (rule extends_mono [OF through_gates [OF gates_raise(1-5)] quiet_blame]) simp
  with gates_raise show ?thesis by (intro exI [of _ 5]) simp
next
  case (gates_fail s1 s2 reply s3 s5)
  have "extends (blame w 5 e) s s'"
    using blame_after_quiet [OF through_loop [OF gates_fail(1-4)] gates_blame [OF gates_fail(5)]] gates_fail(6)
    by simp
  with gates_fail show ?thesis by (intro exI [of _ 5]) simp
next
  case (commit s1 s2 reply s3 s5 s6 msg e')
  have "extends (blame w 6 e') s s'"
    by (rule blame_after_quiet [OF through_gates [OF commit(1-5)] commit_blame [OF commit(6)]]) simp
  with commit show ?thesis by (intro exI [of _ 6]) simp
next
  case (push s1 s2 reply s3 s5 s6 msg s7 e')
  have "extends (\<lambda>i. \<not> failed i) s s7"
    by (rule clean_after_quiet [OF through_gates [OF push(1-5)] commit_clean [OF push(6)]]) simp
  then have "extends (blame w 7 e') s s'"
    by (rule blame_after_clean [OF _ push_blame [OF push(7)]])
  with push show ?thesis by (intro exI [of _ 7]) simp
next
  case (pr s1 s2 reply s3 s5 s6 msg s7 s8 e')
  have "extends (\<lambda>i. \<not> failed i) s s7"
    by (rule clean_after_quiet [OF through_gates [OF pr(1-5)] commit_clean [OF pr(6)]]) simp
  then have "extends (\<lambda>i. \<not> failed i) s s8"
    by (rule extends_trans [OF _ push_clean [OF pr(7)]])
  then have "extends (blame w 8 e') s s'"
    by (rule blame_after_clean [OF _ pr_blame [OF pr(8)]])
  with pr show ?thesis by (intro exI [of _ 8]) simp
next
  case (finished s1 s2 reply s3 s5 s6 msg s7 s8 url s9)
  then show ?thesis by simp
qed

lemma workflow_body_finished:
  assumes "workflow_body w a r s = (None, r', s')"
  shows "(\<exists>url. r' = r\<lparr>steps := steps r @ milestones, pr_url := Some url, success := True\<rparr>)
         \<and> extends (\<lambda>i. \<not> failed i) s s'"
  using assms
proof (cases rule: workflow_body_cases)
  case (finished s1 s2 reply s3 s5 s6 msg s7 s8 url s9)
  have "extends (\<lambda>i. \<not> failed i) s s7"
    by (rule clean_after_quiet [OF through_gates [OF finished(1-5)] commit_clean [OF finished(6)]]) simp
  then have "extends (\<lambda>i. \<not> failed i) s s8"
    by (rule extends_trans [OF _ push_clean [OF finished(7)]])
  then have "extends (\<lambda>i. \<not> failed i) s s9"
    by (rule extends_trans [OF _ pr_clean [OF finished(8)]])
  with finished show ?thesis by auto
qed simp_all

lemma distinct_milestones: "distinct milestones"
  by (simp add: milestones_def)

lemma length_milestones: "length milestones = 9"
  by (simp add: milestones_def)

lemma later_milestone_absent:
  assumes "m \<in> set (drop k milestones)"
  shows "m \<notin> set (take k milestones)"
  using set_take_disj_set_drop_if_distinct [OF distinct_milestones, of k k] assms by auto

lemma execute_raised:
  assumes "workflow_body w a (new_report w a) s = (Some e, r1, s1)"
  shows "execute_development_workflow w a s =
           (r1\<lparr>error := Some (str_exn (signals w) e), end_time := Some (time_time w 1),
               duration_seconds := Some (time_time w 1 - start_time r1)\<rparr>,
            log (''Workflow failed: '' @ str_exn (signals w) e) ''ERROR'' s1)"
  using assms by (simp add: execute_development_workflow_def Let_def)

lemma execute_finished:
  assumes "workflow_body w a (new_report w a) s = (None, r1, s1)"
  shows "execute_development_workflow w a s =
           (r1\<lparr>end_time := Some (time_time w 1),
               duration_seconds := Some (time_time w 1 - start_time r1)\<rparr>, s1)"
  using assms by (simp add: execute_development_workflow_def Let_def)


lemma new_report_steps [simp]: "steps (new_report w a) = []"
  by (simp add: new_report_def)











text \<open>
  C4. In a run of the workflow from a fresh agent, when the trace holds a command that
  was invoked with must-succeed semantics and returned a non-zero exit code, the report has
  \<open>success = False\<close> and a non-empty error text, and its steps are the milestones before
  the stage of that command: the milestone of the failing stage and those of the later
  stages are absent.
\<close>

theorem must_succeed_failure:
  assumes "execute_development_workflow w a initial_state = (r, s')"
    and "i \<in> set (calls s')" and "check i" and "outcome i = Inr (rc, out, err)" and "rc \<noteq> 0"
  shows "success r = False
       \<and> (\<exists>msg. error r = Some msg \<and> msg \<noteq> [])
       \<and> steps r = take (stage_of_command (command i)) milestones
       \<and> (\<forall>m\<in>set (drop (stage_of_command (command i)) milestones). m \<notin> set (steps r))"
proof -
  have f: "failed i" using assms(3-5) by (simp add: failed_def)
  obtain raised r1 s1 where body: "workflow_body w a (new_report w a) initial_state = (raised, r1, s1)"
    by (metis prod_cases3)
  show ?thesis
  proof (cases raised)
    case None
    from workflow_body_finished [OF body [unfolded None]]
    have "extends (\<lambda>i. \<not> failed i) initial_state s1" by simp
    moreover from execute_finished [OF body [unfolded None]] assms(1) have "s' = s1" by simp
    ultimately have "\<not> failed i" using assms(2)
      by (auto simp: extends_def initial_state_def)
    with f show ?thesis by simp
  next
    case (Some e)
    from workflow_body_raised [OF body [unfolded Some]]
    obtain k where k: "r1 = (new_report w a)\<lparr>steps := steps (new_report w a) @ take k milestones\<rparr>"
      and ext: "extends (blame w k e) initial_state s1"
      by blast
    from execute_raised [OF body [unfolded Some]] assms(1)
    have r: "r = r1\<lparr>error := Some (str_exn (signals w) e), end_time := Some (time_time w 1),
               duration_seconds := Some (time_time w 1 - start_time r1)\<rparr>"
      and s': "calls s' = calls s1"
      by auto
    from ext s' assms(2) have "blame w k e i"
      by (auto simp: extends_def initial_state_def)
    with f have st: "stage_of_command (command i) = k" and msg: "str_exn (signals w) e \<noteq> []"
      by (simp_all add: blame_def)
    from k r have "steps r = take k milestones" "success r = False" "error r = Some (str_exn (signals w) e)"
      by (simp_all add: new_report_def)
    with st msg show ?thesis
      by (auto dest: later_milestone_absent)
  qed
qed

lemma log_cong: "s = s' \<Longrightarrow> log m l s = log m l s'"
  by simp

lemma scripted_sel:
  "subprocess_run (scripted sh rp env) n cmd cwd = sh n cmd"
  "messages_create (scripted sh rp env) n sys msgs = (if n < length rp then rp ! n else Inr [''IMPLEMENTATION_COMPLETE''])"
  "getenv (scripted sh rp env) = map_of env"
  "path_exists (scripted sh rp env) p = True"
  "open_write (scripted sh rp env) p = None"
  "chmod (scripted sh rp env) p m = None"
  "time_time (scripted sh rp env) k = real k"
  "signals (scripted sh rp env) = (\<lambda>n. None)"
  by (simp_all add: scripted_def)

lemma example_agent_sel:
  "workspace example_agent = ''/workspace''"
  "branch_name example_agent = Some ''issue-7''"
  "issue_number example_agent = Some 7"
  "d_title (issue example_agent) = Some ''Fix''"
  "d_pr_title (issue example_agent) = None"
  by (simp_all add: example_agent_def ContainerizedClaude_def)

lemmas eval_defs =
  workflow_body_def new_report_def append_step_def
  setup_git_authentication_def create_branch_def run_quality_gates_def commit_changes_def
  push_branch_def create_pull_request_def run_command_def send_message_def
  implementation_loop.simps max_iterations_def get_default_def Let_def
  extract_pr_url_def strip_def is_space_def split_def backslash_n_def
  upper_def upper_char_def lower_def lower_char_def
  scripted_sel example_agent_sel both_tokens_def initial_state_def







lemma build_breaks_run:
  "(case execute_development_workflow build_breaks example_agent initial_state of
      (r, s) \<Rightarrow> r = \<lparr> report_issue_number = Some 7, report_branch_name = Some ''issue-7'', start_time = 0,
                     steps = take 5 milestones, success = False, error = Some ''Quality gates failed'',
                     pr_url = None, end_time = Some 1, duration_seconds = Some 1 \<rparr>
         \<and> \<lparr>command = ''swift build'', check = True, outcome = Inr (1, [], ''error: build failed'')\<rparr>
             \<in> set (calls s))"
  by (simp add: eval_defs execute_development_workflow_def build_breaks_def take_milestones cong: log_cong)

theorem must_succeed_failure_witness:
  "success (fst (execute_development_workflow build_breaks example_agent initial_state)) = False
   \<and> error (fst (execute_development_workflow build_breaks example_agent initial_state)) = Some ''Quality gates failed''
   \<and> steps (fst (execute_development_workflow build_breaks example_agent initial_state))
       = [''workflow_started'', ''git_configured'', ''branch_created'', ''initial_analysis'',
          ''implementation_completed'']
   \<and> ''quality_gates_passed'' \<notin> set (steps (fst (execute_development_workflow build_breaks example_agent initial_state)))"
proof -
  let ?x = "execute_development_workflow build_breaks example_agent initial_state"
  let ?i = "\<lparr>command = ''swift build'', check = True, outcome = Inr (1, [], ''error: build failed'')\<rparr>"
  from build_breaks_run have i: "?i \<in> set (calls (snd ?x))"
    by (simp add: case_prod_beta)
  have st: "stage_of_command (command ?i) = 5"
    by (simp add: stage_of_command_def)
  have "check ?i" "outcome ?i = Inr (1, [], ''error: build failed'')" "(1::int) \<noteq> 0"
    by simp_all
  note th = must_succeed_failure [OF prod.collapse [symmetric] i this, unfolded st]
  from build_breaks_run have "error (fst ?x) = Some ''Quality gates failed''"
    by (simp add: case_prod_beta)
  with th show ?thesis
    by (simp add: take_milestones)
qed

subsection \<open>send\_message\<close>

text \<open>
  C10. A call of \<open>send_message\<close> that raises leaves the conversation history as it was,
  and it raises whenever the request to the API raises; a call that returns the reply has
  extended the history by the user turn followed by the assistant turn, and by nothing
  else.
\<close>

theorem send_message_history:
  assumes "send_message w a message system_prompt s = (res, s')"
  shows "(case res of
            Inl e \<Rightarrow> conversation_history s' = conversation_history s
          | Inr reply \<Rightarrow>
              conversation_history s' = conversation_history s @ [(''user'', message), (''assistant'', reply)])
       \<and> (\<forall>e. messages_create w (length (requests s))
                 (case system_prompt of None \<Rightarrow> get_system_prompt a
                  | Some p \<Rightarrow> if p = [] then get_system_prompt a else p)
                 (conversation_history s @ [(''user'', message)]) = Inl e
              \<longrightarrow> res = Inl e)"
  using assms
  by (auto simp: send_message_def Let_def split: sum.splits list.splits)

theorem send_message_history_witness:
  "conversation_history (snd (send_message api_down example_agent ''hi'' None initial_state)) = []
   \<and> fst (send_message api_down example_agent ''hi'' None initial_state) = Inl (ExternalError ''overloaded'')
   \<and> conversation_history (snd (send_message reply_hello example_agent ''hi'' None initial_state))
       = [(''user'', ''hi''), (''assistant'', ''hello'')]"
  using send_message_history [OF prod.collapse [symmetric], of api_down example_agent "''hi''" None initial_state]
        send_message_history [OF prod.collapse [symmetric], of reply_hello example_agent "''hi''" None initial_state]
  by (simp add: send_message_def scripted_sel api_down_def reply_hello_def initial_state_def Let_def)

subsection \<open>The URL of the pull request\<close>

lemma two_lines_run:
  "(case execute_development_workflow two_lines example_agent initial_state of
      (r, s) \<Rightarrow> r = \<lparr> report_issue_number = Some 7, report_branch_name = Some ''issue-7'', start_time = 0,
                     steps = milestones, success = True, error = None,
                     pr_url = Some (''Creating pull request for issue-7 into master in o/r'' @ newline
                                    @ ''https://github.com/o/r/pull/1''),
                     end_time = Some 1, duration_seconds = Some 1 \<rparr>
         \<and> length (calls s) = 14
         \<and> calls s ! 11 = \<lparr>command = ''git status --porcelain'', check = False, outcome = Inr (0, [], [])\<rparr>
         \<and> list_all (\<lambda>i. command i \<noteq> ''git status --porcelain'') (drop 12 (calls s)))"
  by (simp add: eval_defs execute_development_workflow_def two_lines_def milestones_def newline_def cong: log_cong)

text \<open>
  C7. The claim fails on the code: the separator of the source is the two characters
  backslash and n, so a standard output of two lines is never split. In the run below the
  command prints a progress line and the URL; the report records both lines, while the
  last non-empty line of the output is the URL alone.
\<close>

theorem pr_url_two_lines:
  "pr_url (fst (execute_development_workflow two_lines example_agent initial_state))
     = Some (''Creating pull request for issue-7 into master in o/r'' @ newline @ ''https://github.com/o/r/pull/1'')
   \<and> last_nonempty_line (''Creating pull request for issue-7 into master in o/r'' @ newline
                          @ ''https://github.com/o/r/pull/1'' @ newline)
     = Some ''https://github.com/o/r/pull/1''"
  using two_lines_run
  by (simp add: case_prod_beta last_nonempty_line_def strip_def is_space_def split_def newline_def)

lemma escaped_newline_run:
  "fst (execute_development_workflow escaped_newline example_agent initial_state) =
     \<lparr> report_issue_number = Some 7, report_branch_name = Some ''issue-7'', start_time = 0,
       steps = milestones, success = True, error = None, pr_url = Some [],
       end_time = Some 1, duration_seconds = Some 1 \<rparr>"
  by (simp add: eval_defs execute_development_workflow_def escaped_newline_def milestones_def cong: log_cong)

text \<open>
  C2. The steps of a successful report are the nine milestones in order
  (\<open>workflow_body_finished\<close>), but its URL can be empty: when the standard output of the
  pull-request command ends with the two characters backslash and n, the piece after the
  last separator is the empty string, and the run below succeeds with it.
\<close>

theorem success_with_empty_pr_url:
  "success (fst (execute_development_workflow escaped_newline example_agent initial_state))
   \<and> pr_url (fst (execute_development_workflow escaped_newline example_agent initial_state)) = Some []"
  by (simp add: escaped_newline_run)

subsection \<open>The implementation loop\<close>

lemma lower_upper_char: "lower_char (upper_char c) = lower_char c"
  by (simp add: upper_char_def lower_char_def)

lemma upper_lower_char: "upper_char (lower_char c) = upper_char c"
  by (simp add: upper_char_def lower_char_def)

lemma lower_upper [simp]: "lower (upper t) = lower t"
  by (simp add: lower_def upper_def lower_upper_char)

lemma upper_lower [simp]: "upper (lower t) = upper t"
  by (simp add: lower_def upper_def upper_lower_char)

lemma contains_map: "contains n h \<Longrightarrow> contains (map f n) (map f h)"
  by (induction h) (auto simp: map_mono_prefix simp del: map_eq_Cons_conv dest: map_mono_prefix [where f = f])

lemma contains_ci_marker:
  "contains_ci ''IMPLEMENTATION_COMPLETE'' t = contains ''IMPLEMENTATION_COMPLETE'' (upper t)"
proof
  assume "contains_ci ''IMPLEMENTATION_COMPLETE'' t"
  then have "contains (upper (lower ''IMPLEMENTATION_COMPLETE'')) (upper (lower t))"
    unfolding contains_ci_def upper_def [of "lower _"] by (rule contains_map)
  moreover have "upper ''IMPLEMENTATION_COMPLETE'' = ''IMPLEMENTATION_COMPLETE''"
    by (simp add: upper_def upper_char_def)
  ultimately show "contains ''IMPLEMENTATION_COMPLETE'' (upper t)" by simp
next
  assume "contains ''IMPLEMENTATION_COMPLETE'' (upper t)"
  then have "contains (lower ''IMPLEMENTATION_COMPLETE'') (lower (upper t))"
    unfolding lower_def by (rule contains_map)
  then show "contains_ci ''IMPLEMENTATION_COMPLETE'' t"
    by (simp add: contains_ci_def)
qed

lemma send_message_Inr:
  assumes "send_message w a message sp s = (Inr reply, s')"
  shows "conversation_history s' = conversation_history s @ [(''user'', message), (''assistant'', reply)]
       \<and> length (requests s') = Suc (length (requests s))"
  using assms
  by (auto simp: send_message_def Let_def split: sum.splits list.splits)

lemma send_message_Inl:
  assumes "send_message w a message sp s = (Inl e, s')"
  shows "conversation_history s' = conversation_history s
       \<and> length (requests s') = Suc (length (requests s))"
  using assms
  by (auto simp: send_message_def Let_def split: sum.splits list.splits)

lemma run_command_frame:
  assumes "run_command w a cmd chk s = (res, s')"
  shows "conversation_history s' = conversation_history s \<and> requests s' = requests s"
  using assms
  by (auto simp: run_command_def Let_def split: sum.splits if_splits)

lemma replies_of_append [simp]: "replies_of (h @ h') = replies_of h @ replies_of h'"
  by (simp add: replies_of_def)

lemma replies_of_turn [simp]: "replies_of [(''user'', m), (''assistant'', reply)] = [reply]"
  by (simp add: replies_of_def)

lemma implementation_loop_cases [consumes 1, case_names exit status_raise send_raise complete continue]:
  assumes loop: "implementation_loop w a k s = (res, s')"
  obtains
    (exit) "\<not> k < max_iterations" "res = None" "s' = s"
  | (status_raise) m e where "k < max_iterations"
      "run_command w a ''git status --porcelain'' False (log m ''INFO'' s) = (Inl e, s')" "res = Some e"
  | (send_raise) m rc git_status err s1 e where "k < max_iterations"
      "run_command w a ''git status --porcelain'' False (log m ''INFO'' s) = (Inr (rc, git_status, err), s1)"
      "send_message w a (status_message (k + 1) git_status) None s1 = (Inl e, s')" "res = Some e"
  | (complete) m rc git_status err s1 reply s2 where "k < max_iterations"
      "run_command w a ''git status --porcelain'' False (log m ''INFO'' s) = (Inr (rc, git_status, err), s1)"
      "send_message w a (status_message (k + 1) git_status) None s1 = (Inr reply, s2)"
      "contains ''IMPLEMENTATION_COMPLETE'' (upper reply)" "res = None"
      "s' = log ''Implementation marked as complete by Claude'' ''INFO'' s2"
  | (continue) m rc git_status err s1 reply s2 s3 where "k < max_iterations"
      "run_command w a ''git status --porcelain'' False (log m ''INFO'' s) = (Inr (rc, git_status, err), s1)"
      "send_message w a (status_message (k + 1) git_status) None s1 = (Inr reply, s2)"
      "\<not> contains ''IMPLEMENTATION_COMPLETE'' (upper reply)"
      "calls s3 = calls s2" "requests s3 = requests s2" "conversation_history s3 = conversation_history s2"
      "implementation_loop w a (k + 1) s3 = (res, s')"
proof (cases "k < max_iterations")
  case False
  with loop show thesis by (intro exit) (simp_all add: implementation_loop.simps [of w a k s])
next
  case True
  let ?m = "''Implementation iteration '' @ str_nat (k + 1) @ ''/'' @ str_nat max_iterations"
  obtain x1 s1 where e1: "run_command w a ''git status --porcelain'' False (log ?m ''INFO'' s) = (x1, s1)"
    by fastforce
  show thesis
  proof (cases x1)
    case (Inl e)
    with loop True e1 show thesis
      by (intro status_raise [of ?m e]) (auto simp: implementation_loop.simps [of w a k s] Let_def)
  next
    case (Inr c)
    obtain rc git_status err where c: "c = (rc, git_status, err)" by (cases c)
    note e1' = e1 [unfolded Inr c]
    obtain x2 s2 where e2: "send_message w a (status_message (k + 1) git_status) None s1 = (x2, s2)"
      by fastforce
    show thesis
    proof (cases x2)
      case (Inl e)
      with loop True e1' e2 show thesis
        by (intro send_raise [of ?m rc git_status err s1 e])
           (auto simp: implementation_loop.simps [of w a k s] Let_def)
    next
      case (Inr reply)
      note e2' = e2 [unfolded Inr]
      show thesis
      proof (cases "contains ''IMPLEMENTATION_COMPLETE'' (upper reply)")
        case True
        with loop \<open>k < max_iterations\<close> e1' e2' show thesis
          by (intro complete [of ?m rc git_status err s1 reply s2])
             (auto simp: implementation_loop.simps [of w a k s] Let_def)
      next
        case False
        let ?s3 = "(if list_ex (\<lambda>cmd. contains cmd (lower reply))
                         [''swift build'', ''swift test'', ''git'', ''swiftlint'']
                    then log ''Claude suggested commands - manual execution needed'' ''INFO'' s2
                    else s2)"
        from loop \<open>k < max_iterations\<close> e1' e2' False
        have "implementation_loop w a (k + 1) ?s3 = (res, s')"
          by (simp add: implementation_loop.simps [of w a k s] Let_def)
        with \<open>k < max_iterations\<close> e1' e2' False show thesis
          by (intro continue [of ?m rc git_status err s1 reply s2 ?s3]) simp_all
      qed
    qed
  qed
qed

lemma implementation_loop_turns_from:
  assumes "implementation_loop w a k s = (res, s')"
  shows "\<exists>n rs. length (requests s') = length (requests s) + n \<and> n \<le> max_iterations - k
           \<and> replies_of (conversation_history s') = replies_of (conversation_history s) @ rs
           \<and> length rs \<le> n
           \<and> (\<forall>j<length rs. contains_ci ''IMPLEMENTATION_COMPLETE'' (rs ! j)
                  \<longrightarrow> Suc j = length rs \<and> n = length rs \<and> res = None)
           \<and> (res = None \<and> n < max_iterations - k
                  \<longrightarrow> rs \<noteq> [] \<and> contains_ci ''IMPLEMENTATION_COMPLETE'' (last rs))"
  using assms
proof (induction "max_iterations - k" arbitrary: k s)
  case 0
  from "0.prems" show ?case
  proof (cases rule: implementation_loop_cases)
    case exit
    then show ?thesis by (auto intro!: exI [of _ 0] exI [of _ "[]"])
  qed (use "0.hyps" in simp_all)
next
  case (Suc x)
  from Suc.prems show ?case
  proof (cases rule: implementation_loop_cases)
    case exit
    then show ?thesis by (auto intro!: exI [of _ 0] exI [of _ "[]"])
  next
    case (status_raise m e)
    from run_command_frame [OF status_raise(2)] status_raise(3) show ?thesis
      by (auto intro!: exI [of _ 0] exI [of _ "[]"])
  next
    case (send_raise m rc git_status err s1 e)
    from run_command_frame [OF send_raise(2)] send_message_Inl [OF send_raise(3)] send_raise(1,4)
    show ?thesis
      by (auto intro!: exI [of _ 1] exI [of _ "[]"])
  next
    case (complete m rc git_status err s1 reply s2)
    from run_command_frame [OF complete(2)] send_message_Inr [OF complete(3)] complete(1,4,5,6)
    show ?thesis
      by (auto intro!: exI [of _ 1] exI [of _ "[reply]"] simp: contains_ci_marker)
  next
    case (continue m rc git_status err s1 reply s2 s3)
    have x: "x = max_iterations - (k + 1)" using Suc.hyps(2) by simp
    from Suc.hyps(1) [OF x continue(8)]
    obtain n rs where ih:
      "length (requests s') = length (requests s3) + n" "n \<le> max_iterations - (k + 1)"
      "replies_of (conversation_history s') = replies_of (conversation_history s3) @ rs"
      "length rs \<le> n"
      "\<forall>j<length rs. contains_ci ''IMPLEMENTATION_COMPLETE'' (rs ! j)
          \<longrightarrow> Suc j = length rs \<and> n = length rs \<and> res = None"
      "res = None \<and> n < max_iterations - (k + 1)
          \<longrightarrow> rs \<noteq> [] \<and> contains_ci ''IMPLEMENTATION_COMPLETE'' (last rs)"
      by blast
    from run_command_frame [OF continue(2)] send_message_Inr [OF continue(3)] continue(6,7)
    have req: "length (requests s3) = Suc (length (requests s))"
      and hist: "replies_of (conversation_history s3) = replies_of (conversation_history s) @ [reply]"
      by simp_all
    have nomark: "\<not> contains_ci ''IMPLEMENTATION_COMPLETE'' reply"
      using continue(4) by (simp add: contains_ci_marker)
    show ?thesis
    proof (intro exI [of _ "Suc n"] exI [of _ "reply # rs"] conjI allI impI)
      show "length (requests s') = length (requests s) + Suc n" using ih(1) req by simp
      show "Suc n \<le> max_iterations - k" using ih(2) continue(1) by simp
      show "replies_of (conversation_history s') = replies_of (conversation_history s) @ reply # rs"
        using ih(3) hist by simp
      show "length (reply # rs) \<le> Suc n" using ih(4) by simp
    next
      fix j assume j: "j < length (reply # rs)" "contains_ci ''IMPLEMENTATION_COMPLETE'' ((reply # rs) ! j)"
      then obtain j' where j': "j = Suc j'" using nomark by (cases j) auto
      with j ih(5) have "Suc j' = length rs \<and> n = length rs \<and> res = None" by auto
      with j' show "Suc j = length (reply # rs)" "Suc n = length (reply # rs)" "res = None" by simp_all
    next
      assume a: "res = None \<and> Suc n < max_iterations - k"
      then have "n < max_iterations - (k + 1)" by arith
      with a ih(6) have "rs \<noteq> [] \<and> contains_ci ''IMPLEMENTATION_COMPLETE'' (last rs)" by blast
      then show "reply # rs \<noteq> []" "contains_ci ''IMPLEMENTATION_COMPLETE'' (last (reply # rs))" by simp_all
    qed
  qed
qed

text \<open>
  C3. The turns of the implementation loop are its calls of \<open>send_message\<close>, each of which
  sends one request: the loop sends at most 20. The replies it receives are appended to
  the history in order; a reply that contains the marker, compared without regard to case,
  is the last one, no request follows it, and the loop ends without an exception.
  Conversely, a loop that ends without an exception after fewer than 20 requests has ended
  on a reply that contains the marker.
\<close>

theorem implementation_loop_turns:
  assumes "implementation_loop w a 0 s = (res, s')"
  shows "length (requests s') \<le> length (requests s) + 20
       \<and> (\<exists>rs. replies_of (conversation_history s') = replies_of (conversation_history s) @ rs
              \<and> length rs \<le> length (requests s') - length (requests s)
              \<and> (\<forall>j<length rs. contains_ci ''IMPLEMENTATION_COMPLETE'' (rs ! j)
                     \<longrightarrow> Suc j = length rs
                         \<and> length (requests s') = length (requests s) + length rs
                         \<and> res = None)
              \<and> (res = None \<and> length (requests s') < length (requests s) + 20
                     \<longrightarrow> rs \<noteq> [] \<and> contains_ci ''IMPLEMENTATION_COMPLETE'' (last rs)))"
proof -
  from implementation_loop_turns_from [OF assms]
  obtain n rs where *:
    "length (requests s') = length (requests s) + n" "n \<le> max_iterations - 0"
    "replies_of (conversation_history s') = replies_of (conversation_history s) @ rs"
    "length rs \<le> n"
    "\<forall>j<length rs. contains_ci ''IMPLEMENTATION_COMPLETE'' (rs ! j)
        \<longrightarrow> Suc j = length rs \<and> n = length rs \<and> res = None"
    "res = None \<and> n < max_iterations - 0
        \<longrightarrow> rs \<noteq> [] \<and> contains_ci ''IMPLEMENTATION_COMPLETE'' (last rs)"
    by blast
  have "length (requests s') \<le> length (requests s) + 20"
    using *(1,2) by (simp add: max_iterations_def)
  moreover have "length rs \<le> length (requests s') - length (requests s)"
    using *(1,4) by simp
  moreover have "\<forall>j<length rs. contains_ci ''IMPLEMENTATION_COMPLETE'' (rs ! j)
                     \<longrightarrow> Suc j = length rs
                         \<and> length (requests s') = length (requests s) + length rs
                         \<and> res = None"
    using *(1,5) by auto
  moreover have "res = None \<and> length (requests s') < length (requests s) + 20
                     \<longrightarrow> rs \<noteq> [] \<and> contains_ci ''IMPLEMENTATION_COMPLETE'' (last rs)"
    using *(1,6) by (simp add: max_iterations_def)
  ultimately show ?thesis using *(3) by blast
qed

lemma two_turns_run:
  "(case implementation_loop two_turns example_agent 0 initial_state of
      (res, s) \<Rightarrow> res = None \<and> length (requests s) = 2
         \<and> replies_of (conversation_history s) = [''Working on it'', ''Implementation_Complete: all done''])"
  by (simp add: eval_defs two_turns_def replies_of_def cong: log_cong)

theorem implementation_loop_turns_witness:
  "fst (implementation_loop two_turns example_agent 0 initial_state) = None
   \<and> length (requests (snd (implementation_loop two_turns example_agent 0 initial_state))) = 2
   \<and> replies_of (conversation_history (snd (implementation_loop two_turns example_agent 0 initial_state)))
       = [''Working on it'', ''Implementation_Complete: all done'']
   \<and> contains_ci ''IMPLEMENTATION_COMPLETE'' ''Implementation_Complete: all done''
   \<and> \<not> contains_ci ''IMPLEMENTATION_COMPLETE'' ''Working on it''"
  using implementation_loop_turns [OF prod.collapse [symmetric], of two_turns example_agent initial_state]
    two_turns_run
  by (simp add: case_prod_beta contains_ci_def lower_def lower_char_def)

end
